theory Spec2Isabelle
  imports Complex_Main
begin

section \<open>Python values\<close>

text \<open>
  The values that travel between the JSON request, the database driver and the
  response. \<open>scalar\<close> is what the driver hands over for one column (\<open>None\<close>,
  \<open>bool\<close>, \<open>int\<close>, \<open>str\<close>); \<open>json\<close> is a parsed request body;
  \<open>pyval\<close> is what \<open>jsonify\<close> receives, which besides scalars, lists and dicts
  may hold the result of \<open>float(...)\<close>. Numbers with a fraction inside a request body
  and non-integer column values are outside the model.
\<close>

datatype scalar = PNone | PBool bool | PInt int | PStr string

datatype json = Scalar scalar | Array "json list" | Object "(string \<times> json) list"

datatype pyval = Val scalar | Float real | List "pyval list" | Dict "(string \<times> pyval) list"

text \<open>
  An exception: its class and the text \<open>str(e)\<close> gives (the interpreter's
  messages are written without their quotation marks).
\<close>

datatype exn = Exn string string

fun str_e :: "exn \<Rightarrow> string" where
  "str_e (Exn cls msg) = msg"

subsection \<open>Truthiness, \<open>or\<close>, \<open>str\<close>\<close>

fun truthy :: "scalar \<Rightarrow> bool" where
  "truthy PNone = False"
| "truthy (PBool b) = b"
| "truthy (PInt n) = (n \<noteq> 0)"
| "truthy (PStr s) = (s \<noteq> [])"

fun truthy_json :: "json \<Rightarrow> bool" where
  "truthy_json (Scalar c) = truthy c"
| "truthy_json (Array xs) = (xs \<noteq> [])"
| "truthy_json (Object kvs) = (kvs \<noteq> [])"

text \<open>\<open>x or y\<close> where \<open>x\<close> is a column value and \<open>y\<close> a string literal.\<close>

definition py_or :: "scalar \<Rightarrow> string \<Rightarrow> pyval" where
  "py_or x y = (if truthy x then Val x else Val (PStr y))"

definition digit_char :: "nat \<Rightarrow> char" where
  "digit_char d = ''0123456789'' ! d"

fun str_nat :: "nat \<Rightarrow> string" where
  "str_nat n = (if n < 10 then [digit_char n] else str_nat (n div 10) @ [digit_char (n mod 10)])"

declare str_nat.simps [simp del]

definition str_int :: "int \<Rightarrow> string" where
  "str_int i = (if i < 0 then CHR ''-'' # str_nat (nat (- i)) else str_nat (nat i))"

text \<open>What an f-string field \<open>{x}\<close> prints for a column value.\<close>

fun py_str :: "scalar \<Rightarrow> string" where
  "py_str PNone = ''None''"
| "py_str (PBool b) = (if b then ''True'' else ''False'')"
| "py_str (PInt n) = str_int n"
| "py_str (PStr s) = s"

subsection \<open>Results that may raise\<close>

definition sbind :: "exn + 'a \<Rightarrow> ('a \<Rightarrow> exn + 'b) \<Rightarrow> exn + 'b" where
  "sbind m f = (case m of Inl e \<Rightarrow> Inl e | Inr a \<Rightarrow> f a)"

text \<open>\<open>row[i]\<close> on a tuple: out of range raises.\<close>

definition subscript :: "scalar list \<Rightarrow> nat \<Rightarrow> exn + scalar" where
  "subscript row i =
     (if i < length row then Inr (row ! i)
      else Inl (Exn ''IndexError'' ''tuple index out of range''))"

text \<open>\<open>cur.fetchone()[i]\<close>: \<open>fetchone\<close> gives \<open>None\<close> when no row is left.\<close>

definition subscript_opt :: "scalar list option \<Rightarrow> nat \<Rightarrow> exn + scalar" where
  "subscript_opt r i =
     (case r of
        None \<Rightarrow> Inl (Exn ''TypeError'' ''NoneType object is not subscriptable'')
      | Some row \<Rightarrow> subscript row i)"

text \<open>\<open>data.get(key, default)\<close>: only a dict has \<open>get\<close>.\<close>

definition py_get :: "json \<Rightarrow> string \<Rightarrow> json \<Rightarrow> exn + json" where
  "py_get data k dflt =
     (case data of
        Object kvs \<Rightarrow> (case map_of kvs k of None \<Rightarrow> Inr dflt | Some v \<Rightarrow> Inr v)
      | _ \<Rightarrow> Inl (Exn ''AttributeError'' ''object has no attribute get''))"

section \<open>Timestamps\<close>

text \<open>
  A timestamp is a count of microseconds since 1970-01-01 00:00:00. The calendar is
  the proleptic Gregorian one; the formats are those the source asks for, for years
  from 1 on.
\<close>

definition usec_per_hour :: int where
  "usec_per_hour = 3600000000"

definition usec_per_day :: int where
  "usec_per_day = 86400000000"

definition civil_from_days :: "int \<Rightarrow> int \<times> int \<times> int" where
  "civil_from_days z =
     (let z' = z + 719468;
          era = z' div 146097;
          doe = z' mod 146097;
          yoe = (doe - doe div 1460 + doe div 36524 - doe div 146096) div 365;
          doy = doe - (365 * yoe + yoe div 4 - yoe div 100);
          mp = (5 * doy + 2) div 153;
          d = doy - (153 * mp + 2) div 5 + 1;
          m = (if mp < 10 then mp + 3 else mp - 9);
          y = yoe + era * 400 + (if m \<le> 2 then 1 else 0)
      in (y, m, d))"

definition pad :: "nat \<Rightarrow> string \<Rightarrow> string" where
  "pad w s = replicate (w - length s) CHR ''0'' @ s"

definition month_abbr :: "int \<Rightarrow> string" where
  "month_abbr m =
     [''Jan'', ''Feb'', ''Mar'', ''Apr'', ''May'', ''Jun'',
      ''Jul'', ''Aug'', ''Sep'', ''Oct'', ''Nov'', ''Dec''] ! nat (m - 1)"

text \<open>\<open>TO_CHAR(ts, 'DD Mon YYYY')\<close>\<close>

definition to_char_DD_Mon_YYYY :: "int \<Rightarrow> string" where
  "to_char_DD_Mon_YYYY ts =
     (case civil_from_days (ts div usec_per_day) of
        (y, m, d) \<Rightarrow> pad 2 (str_int d) @ '' '' @ month_abbr m @ '' '' @ pad 4 (str_int y))"

text \<open>\<open>TO_CHAR(ts, 'YYYY-MM-DD')\<close>\<close>

definition to_char_YYYY_MM_DD :: "int \<Rightarrow> string" where
  "to_char_YYYY_MM_DD ts =
     (case civil_from_days (ts div usec_per_day) of
        (y, m, d) \<Rightarrow> pad 4 (str_int y) @ ''-'' @ pad 2 (str_int m) @ ''-'' @ pad 2 (str_int d))"

text \<open>\<open>datetime.isoformat()\<close> of a naive datetime: the fraction is left out when zero.\<close>

definition isoformat :: "int \<Rightarrow> string" where
  "isoformat ts =
     (let t = ts mod usec_per_day;
          s = t div 1000000;
          us = t mod 1000000
      in to_char_YYYY_MM_DD ts @ ''T'' @ pad 2 (str_int (s div 3600)) @ '':''
           @ pad 2 (str_int (s mod 3600 div 60)) @ '':'' @ pad 2 (str_int (s mod 60))
           @ (if us = 0 then [] else ''.'' @ pad 6 (str_int us)))"

section \<open>The database\<close>

text \<open>
  Modelled from the spec: the schema is not part of the source. The tables have the
  columns the queries name (\<open>employers(id, phone_number, company_name, business_type)\<close>,
  \<open>jobs(id, employer_id, title, description, location, payment_amount, payment_type,
  status, created_at)\<close>, \<open>payments(purpose, amount, status, created_at,
  transaction_id)\<close>, \<open>users\<close>), no constraint beyond them, identity keys drawn
  from a sequence, and \<open>created_at\<close> filled with the time of the insert. A column
  keeps the value the driver passes, unchanged.
\<close>

record employer =
  emp_id :: int
  phone_number :: scalar
  company_name :: scalar
  business_type :: scalar

record job =
  job_id :: int
  employer_id :: scalar
  title :: scalar
  description :: scalar
  location :: scalar
  payment_amount :: scalar
  payment_type :: scalar
  job_status :: scalar
  job_created_at :: int

record payment =
  purpose :: scalar
  amount :: scalar
  pay_status :: scalar
  pay_created_at :: int
  transaction_id :: scalar

record database =
  users :: "int list"
  employers :: "employer list"
  jobs :: "job list"
  payments :: "payment list"

subsection \<open>The statements the handlers issue\<close>

datatype stmt =
    Count_users
  | Count_active_jobs
  | Count_employers
  | Sum_completed_payments
  | Select_jobs
  | Select_payments
  | Select_employer json
  | Insert_employer json json json
  | Insert_job json json json json json json

text \<open>The driver turns a parameter into an SQL literal; it has none for a dict or a list.\<close>

fun adapt :: "json \<Rightarrow> exn + scalar" where
  "adapt (Scalar c) = Inr c"
| "adapt (Array xs) = Inl (Exn ''ProgrammingError'' ''cannot adapt type list'')"
| "adapt (Object kvs) = Inl (Exn ''ProgrammingError'' ''cannot adapt type dict'')"

text \<open>\<open>a = b\<close> in a \<open>WHERE\<close> or \<open>ON\<close> clause: never true when a side is \<open>NULL\<close>.\<close>

definition sql_eq :: "scalar \<Rightarrow> scalar \<Rightarrow> bool" where
  "sql_eq a b = (a \<noteq> PNone \<and> b \<noteq> PNone \<and> a = b)"

text \<open>\<open>SUM\<close> skips \<open>NULL\<close>, is \<open>NULL\<close> over no value, and needs numbers.\<close>

fun sql_sum :: "scalar list \<Rightarrow> exn + scalar" where
  "sql_sum [] = Inr PNone"
| "sql_sum (PNone # xs) = sql_sum xs"
| "sql_sum (PInt n # xs) =
     (case sql_sum xs of
        Inl e \<Rightarrow> Inl e
      | Inr (PInt m) \<Rightarrow> Inr (PInt (n + m))
      | Inr _ \<Rightarrow> Inr (PInt n))"
| "sql_sum (_ # xs) = Inl (Exn ''ProgrammingError'' ''function sum does not exist'')"

fun coalesce :: "scalar \<Rightarrow> scalar \<Rightarrow> scalar" where
  "coalesce PNone b = b"
| "coalesce a b = a"

text \<open>\<open>EXTRACT(HOUR FROM i)\<close> of an interval: the hours of its time part.\<close>

definition extract_hour :: "int \<Rightarrow> int" where
  "extract_hour i =
     (if 0 \<le> i then i mod usec_per_day div usec_per_hour
      else - ((- i) mod usec_per_day div usec_per_hour))"

text \<open>The \<open>CASE\<close> expression of the job listing, at \<open>NOW() = now\<close>.\<close>

definition posted :: "int \<Rightarrow> int \<Rightarrow> scalar" where
  "posted now created_at =
     (if created_at > now - usec_per_hour then PStr ''Just now''
      else if created_at > now - 24 * usec_per_hour then
        PStr (str_int (extract_hour (now - created_at)) @ '' hours ago'')
      else PStr (to_char_DD_Mon_YYYY created_at))"

text \<open>\<open>jobs j LEFT JOIN employers e ON j.employer_id = e.id\<close>, keeping \<open>e.company_name\<close>.\<close>

definition left_join :: "job list \<Rightarrow> employer list \<Rightarrow> (job \<times> scalar) list" where
  "left_join js es =
     concat (map (\<lambda>j.
       case filter (\<lambda>e. sql_eq (employer_id j) (PInt (emp_id e))) es of
         [] \<Rightarrow> [(j, PNone)]
       | ms \<Rightarrow> map (\<lambda>e. (j, company_name e)) ms) js)"

text \<open>
  The rows of the job listing before projection: active jobs with their company name,
  newest first, ten at most.
\<close>

definition listed_jobs :: "database \<Rightarrow> (job \<times> scalar) list" where
  "listed_jobs db =
     take 10
       (sort_key (\<lambda>(j, company). - job_created_at j)
         (filter (\<lambda>(j, company). sql_eq (job_status j) (PStr ''active''))
           (left_join (jobs db) (employers db))))"

definition job_row :: "int \<Rightarrow> job \<times> scalar \<Rightarrow> scalar list" where
  "job_row now jc =
     (case jc of (j, company) \<Rightarrow>
        [PInt (job_id j), title j, description j, location j,
         payment_amount j, payment_type j, job_status j,
         company, posted now (job_created_at j)])"

definition select_jobs :: "int \<Rightarrow> database \<Rightarrow> scalar list list" where
  "select_jobs now db = map (job_row now) (listed_jobs db)"

text \<open>The five newest payments, newest first.\<close>

definition newest_payments :: "database \<Rightarrow> payment list" where
  "newest_payments db = take 5 (sort_key (\<lambda>p. - pay_created_at p) (payments db))"

definition payment_row :: "payment \<Rightarrow> scalar list" where
  "payment_row p =
     [purpose p, amount p, pay_status p,
      PStr (to_char_YYYY_MM_DD (pay_created_at p)), transaction_id p]"

definition select_payments :: "database \<Rightarrow> scalar list list" where
  "select_payments db = map payment_row (newest_payments db)"

definition select_employer :: "scalar \<Rightarrow> database \<Rightarrow> scalar list list" where
  "select_employer phone db =
     map (\<lambda>e. [PInt (emp_id e)]) (filter (\<lambda>e. sql_eq (phone_number e) phone) (employers db))"

text \<open>\<open>jobs WHERE status = 'active'\<close>, and \<open>amount\<close> of \<open>payments WHERE status = 'completed'\<close>.\<close>

definition active_jobs :: "database \<Rightarrow> job list" where
  "active_jobs db = filter (\<lambda>j. sql_eq (job_status j) (PStr ''active'')) (jobs db)"

definition completed_amounts :: "database \<Rightarrow> scalar list" where
  "completed_amounts db =
     map amount (filter (\<lambda>p. sql_eq (pay_status p) (PStr ''completed'')) (payments db))"

section \<open>The world a request runs in\<close>

datatype call =
  Connect | Cursor | Execute stmt | Fetchone | Fetchall | Cursor_close | Conn_close | Commit

text \<open>
  \<open>store\<close> is the committed database and \<open>txn\<close> what the open connection sees;
  \<open>result\<close> holds the rows of the last statement that are not fetched yet. The
  sequences are not rolled back. \<open>clock\<close> is the time in UTC, \<open>utc_offset\<close> the
  zone of the server process. \<open>faults\<close> tells which call on the connection raises
  (by its position in \<open>trace\<close>, the log of all calls made).
\<close>

record world =
  reachable :: bool
  store :: database
  txn :: database
  result :: "scalar list list"
  employers_seq :: int
  jobs_seq :: int
  clock :: int
  utc_offset :: int
  faults :: "nat \<Rightarrow> exn option"
  trace :: "call list"

type_synonym 'a io = "world \<Rightarrow> (exn + 'a) \<times> world"

definition io_return :: "'a \<Rightarrow> 'a io" where
  "io_return a w = (Inr a, w)"

definition io_bind :: "'a io \<Rightarrow> ('a \<Rightarrow> 'b io) \<Rightarrow> 'b io" where
  "io_bind m f w = (case m w of (Inl e, w') \<Rightarrow> (Inl e, w') | (Inr a, w') \<Rightarrow> f a w')"

definition lift :: "exn + 'a \<Rightarrow> 'a io" where
  "lift r w = (r, w)"

subsection \<open>Running a statement\<close>

definition run_sql :: "stmt \<Rightarrow> world \<Rightarrow> exn + scalar list list \<times> world" where
  "run_sql s w =
     (case s of
        Count_users \<Rightarrow> Inr ([[PInt (int (length (users (txn w))))]], w)
      | Count_active_jobs \<Rightarrow> Inr ([[PInt (int (length (active_jobs (txn w))))]], w)
      | Count_employers \<Rightarrow> Inr ([[PInt (int (length (employers (txn w))))]], w)
      | Sum_completed_payments \<Rightarrow>
          sbind (sql_sum (completed_amounts (txn w)))
            (\<lambda>total. Inr ([[coalesce total (PInt 0)]], w))
      | Select_jobs \<Rightarrow> Inr (select_jobs (clock w) (txn w), w)
      | Select_payments \<Rightarrow> Inr (select_payments (txn w), w)
      | Select_employer phone \<Rightarrow>
          sbind (adapt phone) (\<lambda>p. Inr (select_employer p (txn w), w))
      | Insert_employer phone company btype \<Rightarrow>
          sbind (adapt phone) (\<lambda>p.
          sbind (adapt company) (\<lambda>c.
          sbind (adapt btype) (\<lambda>b.
            let i = employers_seq w + 1;
                e = \<lparr>emp_id = i, phone_number = p, company_name = c, business_type = b\<rparr>
            in Inr ([[PInt i]],
                    w\<lparr>employers_seq := i,
                      txn := (txn w)\<lparr>employers := employers (txn w) @ [e]\<rparr>\<rparr>))))
      | Insert_job emp ttl descr loc pay ptype \<Rightarrow>
          sbind (adapt emp) (\<lambda>e.
          sbind (adapt ttl) (\<lambda>t.
          sbind (adapt descr) (\<lambda>d.
          sbind (adapt loc) (\<lambda>l.
          sbind (adapt pay) (\<lambda>a.
          sbind (adapt ptype) (\<lambda>pt.
            let i = jobs_seq w + 1;
                j = \<lparr>job_id = i, employer_id = e, title = t, description = d, location = l,
                     payment_amount = a, payment_type = pt, job_status = PStr ''active'',
                     job_created_at = clock w\<rparr>
            in Inr ([[PInt i]],
                    w\<lparr>jobs_seq := i, txn := (txn w)\<lparr>jobs := jobs (txn w) @ [j]\<rparr>\<rparr>))))))))"

subsection \<open>The driver\<close>

text \<open>Every call on an open connection is logged and raises when \<open>faults\<close> says so.\<close>

definition driver :: "call \<Rightarrow> unit io" where
  "driver c w =
     (case faults w (length (trace w)) of
        Some e \<Rightarrow> (Inl e, w\<lparr>trace := trace w @ [c]\<rparr>)
      | None \<Rightarrow> (Inr (), w\<lparr>trace := trace w @ [c]\<rparr>))"

text \<open>
  \<open>get_db_connection\<close> catches whatever \<open>psycopg2.connect\<close> raises and returns
  \<open>None\<close> (here \<open>False\<close>); a new connection starts from the committed state.
\<close>

definition get_db_connection :: "bool io" where
  "get_db_connection w =
     (if reachable w
      then (Inr True, w\<lparr>txn := store w, result := [], trace := trace w @ [Connect]\<rparr>)
      else (Inr False, w\<lparr>trace := trace w @ [Connect]\<rparr>))"

definition cursor :: "unit io" where
  "cursor = driver Cursor"

definition execute :: "stmt \<Rightarrow> unit io" where
  "execute s =
     io_bind (driver (Execute s)) (\<lambda>_ w.
       case run_sql s w of
         Inl e \<Rightarrow> (Inl e, w)
       | Inr (rows, w') \<Rightarrow> (Inr (), w'\<lparr>result := rows\<rparr>))"

definition fetchone :: "scalar list option io" where
  "fetchone =
     io_bind (driver Fetchone) (\<lambda>_ w.
       case result w of
         [] \<Rightarrow> (Inr None, w)
       | r # rs \<Rightarrow> (Inr (Some r), w\<lparr>result := rs\<rparr>))"

definition fetchall :: "scalar list list io" where
  "fetchall = io_bind (driver Fetchall) (\<lambda>_ w. (Inr (result w), w\<lparr>result := []\<rparr>))"

definition cursor_close :: "unit io" where
  "cursor_close = driver Cursor_close"

text \<open>Closing a connection drops what was not committed.\<close>

definition conn_close :: "unit io" where
  "conn_close = io_bind (driver Conn_close) (\<lambda>_ w. (Inr (), w\<lparr>txn := store w\<rparr>))"

definition commit :: "unit io" where
  "commit = io_bind (driver Commit) (\<lambda>_ w. (Inr (), w\<lparr>store := txn w\<rparr>))"

text \<open>\<open>datetime.now().isoformat()\<close>: the naive local time.\<close>

definition datetime_now :: "world \<Rightarrow> int" where
  "datetime_now w = clock w + utc_offset w"

definition now_isoformat :: "string io" where
  "now_isoformat w = (Inr (isoformat (datetime_now w)), w)"

section \<open>The handlers\<close>

text \<open>
  A handler gives the body and the status code of its response, and the world it
  leaves. Each one is a \<open>try\<close> block (\<open>..._try\<close>) and its \<open>except\<close>
  branch; \<open>print\<close> is left out.
\<close>

type_synonym response = "pyval \<times> nat"

definition str :: "string \<Rightarrow> pyval" where
  "str s = Val (PStr s)"

subsection \<open>\<open>/api/health\<close>\<close>

definition health_check_try :: "response io" where
  "health_check_try =
     io_bind get_db_connection (\<lambda>conn.
       if conn then
         io_bind conn_close (\<lambda>_.
         io_bind now_isoformat (\<lambda>ts.
         io_return
           (Dict [(''status'', str ''healthy''),
                  (''database'', str ''connected''),
                  (''timestamp'', str ts)], 200)))
       else
         io_bind now_isoformat (\<lambda>ts.
         io_return
           (Dict [(''status'', str ''unhealthy''),
                  (''database'', str ''disconnected''),
                  (''timestamp'', str ts)], 503)))"

definition health_check :: "world \<Rightarrow> response \<times> world" where
  "health_check w =
     (case health_check_try w of
        (Inr r, w') \<Rightarrow> (r, w')
      | (Inl e, w') \<Rightarrow>
          ((Dict [(''status'', str ''error''),
                  (''message'', str (str_e e)),
                  (''timestamp'', str (isoformat (datetime_now w')))], 500), w'))"

subsection \<open>\<open>/api/stats\<close>\<close>

text \<open>\<open>x or 0\<close>, and \<open>cur.fetchone()[0] or 0\<close>\<close>

definition or_0 :: "scalar \<Rightarrow> scalar" where
  "or_0 x = (if truthy x then x else PInt 0)"





subsection \<open>\<open>/api/jobs\<close>\<close>

text \<open>The literal returned when there is no connection.\<close>

definition mock_jobs :: pyval where
  "mock_jobs =
     List [Dict [(''id'', Val (PInt 1)),
                 (''title'', str ''Construction Worker''),
                 (''company'', str ''ZamBuild Construction''),
                 (''location'', str ''Lusaka''),
                 (''salary'', str ''K120/day''),
                 (''type'', str ''Daily''),
                 (''category'', str ''construction''),
                 (''description'', str ''General construction work at building sites.''),
                 (''posted'', str ''2 hours ago'')],
           Dict [(''id'', Val (PInt 2)),
                 (''title'', str ''Farm Assistant''),
                 (''company'', str ''Green Valley Farms''),
                 (''location'', str ''Ndola''),
                 (''salary'', str ''K80/day''),
                 (''type'', str ''Daily''),
                 (''category'', str ''farming''),
                 (''description'', str ''Assist with farming activities.''),
                 (''posted'', str ''5 hours ago'')]]"

text \<open>The literal of the \<open>except\<close> branch, written out a second time in the source.\<close>

definition mock_jobs_on_error :: pyval where
  "mock_jobs_on_error =
     List [Dict [(''id'', Val (PInt 1)),
                 (''title'', str ''Construction Worker''),
                 (''company'', str ''ZamBuild Construction''),
                 (''location'', str ''Lusaka''),
                 (''salary'', str ''K120/day''),
                 (''type'', str ''Daily''),
                 (''category'', str ''construction''),
                 (''description'', str ''General construction work at building sites.''),
                 (''posted'', str ''2 hours ago'')],
           Dict [(''id'', Val (PInt 2)),
                 (''title'', str ''Farm Assistant''),
                 (''company'', str ''Green Valley Farms''),
                 (''location'', str ''Ndola''),
                 (''salary'', str ''K80/day''),
                 (''type'', str ''Daily''),
                 (''category'', str ''farming''),
                 (''description'', str ''Assist with farming activities.''),
                 (''posted'', str ''5 hours ago'')]]"

text \<open>The dict built from one row in the loop.\<close>

definition job_dict :: "scalar list \<Rightarrow> exn + pyval" where
  "job_dict job =
     sbind (subscript job 0) (\<lambda>j0.
     sbind (subscript job 1) (\<lambda>j1.
     sbind (subscript job 2) (\<lambda>j2.
     sbind (subscript job 3) (\<lambda>j3.
     sbind (subscript job 4) (\<lambda>j4.
     sbind (if truthy j4 then
              sbind (subscript job 4) (\<lambda>a.
              sbind (subscript job 5) (\<lambda>t.
              Inr (str (''K'' @ py_str a @ ''/'' @ py_str t))))
            else Inr (str ''Negotiable'')) (\<lambda>salary.
     sbind (subscript job 5) (\<lambda>j5.
     sbind (subscript job 7) (\<lambda>j7.
     sbind (subscript job 8) (\<lambda>j8.
     Inr (Dict [(''id'', Val j0),
                (''title'', Val j1),
                (''description'', py_or j2 ''No description available''),
                (''location'', py_or j3 ''Not specified''),
                (''salary'', salary),
                (''type'', py_or j5 ''Not specified''),
                (''category'', str ''general''),
                (''company'', py_or j7 ''Company not specified''),
                (''posted'', py_or j8 ''Recently'')]))))))))))"

fun jobs_loop :: "scalar list list \<Rightarrow> pyval list \<Rightarrow> exn + pyval list" where
  "jobs_loop [] jobs_list = Inr jobs_list"
| "jobs_loop (job # rest) jobs_list =
     sbind (job_dict job) (\<lambda>d. jobs_loop rest (jobs_list @ [d]))"

definition get_jobs_try :: "response io" where
  "get_jobs_try =
     io_bind get_db_connection (\<lambda>conn.
       if \<not> conn then io_return (mock_jobs, 200)
       else
         io_bind cursor (\<lambda>_.
         io_bind (execute Select_jobs) (\<lambda>_.
         io_bind fetchall (\<lambda>rows.
         io_bind cursor_close (\<lambda>_.
         io_bind conn_close (\<lambda>_.
         io_bind (lift (jobs_loop rows [])) (\<lambda>jobs_list.
         io_return (List jobs_list, 200))))))))"

definition get_jobs :: "world \<Rightarrow> response \<times> world" where
  "get_jobs w =
     (case get_jobs_try w of
        (Inr r, w') \<Rightarrow> (r, w')
      | (Inl e, w') \<Rightarrow> ((mock_jobs_on_error, 200), w'))"

subsection \<open>\<open>/api/payments\<close>\<close>

definition payment_dict :: "scalar list \<Rightarrow> exn + pyval" where
  "payment_dict payment =
     sbind (subscript payment 0) (\<lambda>p0.
     sbind (subscript payment 1) (\<lambda>p1.
     sbind (subscript payment 2) (\<lambda>p2.
     sbind (subscript payment 3) (\<lambda>p3.
     sbind (subscript payment 4) (\<lambda>p4.
     Inr (Dict [(''description'', Val p0),
                (''amount'', str (''K'' @ py_str p1)),
                (''status'', Val p2),
                (''date'', Val p3),
                (''reference'', py_or p4 ''N/A'')]))))))"

fun payments_loop :: "scalar list list \<Rightarrow> pyval list \<Rightarrow> exn + pyval list" where
  "payments_loop [] payments_list = Inr payments_list"
| "payments_loop (payment # rest) payments_list =
     sbind (payment_dict payment) (\<lambda>d. payments_loop rest (payments_list @ [d]))"

definition get_payments_try :: "response io" where
  "get_payments_try =
     io_bind get_db_connection (\<lambda>conn.
       if \<not> conn then io_return (List [], 200)
       else
         io_bind cursor (\<lambda>_.
         io_bind (execute Select_payments) (\<lambda>_.
         io_bind fetchall (\<lambda>rows.
         io_bind cursor_close (\<lambda>_.
         io_bind conn_close (\<lambda>_.
         io_bind (lift (payments_loop rows [])) (\<lambda>payments_list.
         io_return (List payments_list, 200))))))))"

definition get_payments :: "world \<Rightarrow> response \<times> world" where
  "get_payments w =
     (case get_payments_try w of
        (Inr r, w') \<Rightarrow> (r, w')
      | (Inl e, w') \<Rightarrow> ((List [], 200), w'))"

subsection \<open>\<open>/api/create_job\<close>\<close>

text \<open>\<open>if not employer\<close> on what \<open>fetchone\<close> gave: \<open>None\<close> or a tuple.\<close>

definition row_truthy :: "scalar list option \<Rightarrow> bool" where
  "row_truthy r = (case r of None \<Rightarrow> False | Some row \<Rightarrow> row \<noteq> [])"

text \<open>The block "Get or create employer": it yields \<open>employer_id\<close>.\<close>

definition get_or_create_employer :: "json \<Rightarrow> scalar io" where
  "get_or_create_employer data =
     io_bind (lift (py_get data ''phone'' (Scalar (PStr ''+260570528201'')))) (\<lambda>phone.
     io_bind (execute (Select_employer phone)) (\<lambda>_.
     io_bind fetchone (\<lambda>employer.
       if \<not> row_truthy employer then
         io_bind (lift (py_get data ''company'' (Scalar (PStr ''Individual Employer''))))
           (\<lambda>company.
         io_bind (execute (Insert_employer phone company (Scalar (PStr ''Various''))))
           (\<lambda>_.
         io_bind fetchone (\<lambda>r.
         lift (subscript_opt r 0))))
       else lift (subscript_opt employer 0))))"

text \<open>The block "Insert job", given \<open>employer_id\<close>: it yields \<open>job_id\<close>.\<close>

definition insert_job :: "json \<Rightarrow> scalar \<Rightarrow> scalar io" where
  "insert_job data eid =
     io_bind (lift (py_get data ''title'' (Scalar PNone))) (\<lambda>ttl.
     io_bind (lift (py_get data ''description'' (Scalar PNone))) (\<lambda>descr.
     io_bind (lift (py_get data ''location'' (Scalar PNone))) (\<lambda>loc.
     io_bind (lift (py_get data ''salary'' (Scalar (PInt 0)))) (\<lambda>salary.
     io_bind (lift (py_get data ''type'' (Scalar (PStr ''daily'')))) (\<lambda>ptype.
     io_bind (execute (Insert_job (Scalar eid) ttl descr loc salary ptype)) (\<lambda>_.
     io_bind fetchone (\<lambda>r.
     lift (subscript_opt r 0))))))))"

text \<open>The argument is what \<open>request.get_json()\<close> gives, or raises.\<close>

definition create_job_try :: "exn + json \<Rightarrow> response io" where
  "create_job_try body =
     io_bind (lift body) (\<lambda>data.
       if \<not> truthy_json data then
         io_return (Dict [(''error'', str ''No data provided'')], 400)
       else
         io_bind get_db_connection (\<lambda>conn.
           if \<not> conn then
             io_return
               (Dict [(''success'', Val (PBool False)),
                      (''message'', str ''Database not connected'')], 503)
           else
             io_bind cursor (\<lambda>_.
             io_bind (get_or_create_employer data) (\<lambda>employer_id.
             io_bind (insert_job data employer_id) (\<lambda>new_id.
             io_bind commit (\<lambda>_.
             io_bind cursor_close (\<lambda>_.
             io_bind conn_close (\<lambda>_.
             io_return
               (Dict [(''success'', Val (PBool True)),
                      (''job_id'', Val new_id),
                      (''message'', str ''Job created successfully'')], 200)))))))))"

definition create_job :: "exn + json \<Rightarrow> world \<Rightarrow> response \<times> world" where
  "create_job body w =
     (case create_job_try body w of
        (Inr r, w') \<Rightarrow> (r, w')
      | (Inl e, w') \<Rightarrow>
          ((Dict [(''success'', Val (PBool False)), (''error'', str (str_e e))], 500), w'))"

text \<open>The world once \<open>get_db_connection()\<close> and \<open>conn.cursor()\<close> have returned.\<close>

definition after_connect :: "world \<Rightarrow> world" where
  "after_connect w = w\<lparr>txn := store w, result := [], trace := trace w @ [Connect, Cursor]\<rparr>"

section \<open>Reading a response\<close>

fun items :: "pyval \<Rightarrow> pyval list" where
  "items (List xs) = xs"
| "items _ = []"

fun field :: "string \<Rightarrow> pyval \<Rightarrow> pyval option" where
  "field k (Dict kvs) = map_of kvs k"
| "field k _ = None"

definition body_of :: "response \<times> world \<Rightarrow> pyval" where
  "body_of r = fst (fst r)"

definition status_of :: "response \<times> world \<Rightarrow> nat" where
  "status_of r = snd (fst r)"

section \<open>Sample worlds\<close>

definition db0 :: database where
  "db0 = \<lparr>users = [], employers = [], jobs = [], payments = []\<rparr>"

text \<open>An empty, reachable database on 2026-11-04 at 13:46:40 UTC, the server in UTC.\<close>

definition world0 :: world where
  "world0 =
     \<lparr>reachable = True, store = db0, txn = db0, result = [],
      employers_seq = 0, jobs_seq = 0,
      clock = 1793800000000000, utc_offset = 0,
      faults = (\<lambda>n. None), trace = []\<rparr>"

text \<open>The same with the database down, and with the second call on the connection failing.\<close>

definition world_down :: world where
  "world_down = world0\<lparr>reachable := False\<rparr>"

definition world_faulty :: world where
  "world_faulty =
     world0\<lparr>faults := (\<lambda>n. if n = 2 then Some (Exn ''OperationalError'' ''server closed the connection unexpectedly'') else None)\<rparr>"

text \<open>The same with \<open>conn.close()\<close> failing on the first connection.\<close>

definition world_close_fails :: world where
  "world_close_fails =
     world0\<lparr>faults := (\<lambda>n. if n = 1 then Some (Exn ''InterfaceError'' ''connection already closed'') else None)\<rparr>"

text \<open>A database with three active jobs (30 minutes, 3 hours and 30 days old) and six payments.\<close>

definition db1 :: database where
  "db1 =
     \<lparr>users = [1, 2, 3],
      employers =
        [\<lparr>emp_id = 1, phone_number = PStr ''+260111'', company_name = PStr ''Acme Farms'',
          business_type = PStr ''Various''\<rparr>],
      jobs =
        [\<lparr>job_id = 1, employer_id = PInt 1, title = PStr ''Driver'', description = PNone,
          location = PStr ''Lusaka'', payment_amount = PInt 120, payment_type = PStr ''daily'',
          job_status = PStr ''active'', job_created_at = 1793798200000000\<rparr>,
         \<lparr>job_id = 2, employer_id = PInt 1, title = PStr ''Picker'', description = PStr ''Maize'',
          location = PNone, payment_amount = PInt 0, payment_type = PStr ''daily'',
          job_status = PStr ''active'', job_created_at = 1793789200000000\<rparr>,
         \<lparr>job_id = 3, employer_id = PNone, title = PStr ''Guard'', description = PNone,
          location = PNone, payment_amount = PNone, payment_type = PNone,
          job_status = PStr ''active'', job_created_at = 1791208000000000\<rparr>],
      payments =
        [\<lparr>purpose = PStr ''Job post'', amount = PInt 50, pay_status = PStr ''completed'',
          pay_created_at = 1793700000000000, transaction_id = PStr ''TX1''\<rparr>,
         \<lparr>purpose = PStr ''Job post'', amount = PInt 20, pay_status = PStr ''pending'',
          pay_created_at = 1793710000000000, transaction_id = PNone\<rparr>,
         \<lparr>purpose = PStr ''Boost'', amount = PInt 30, pay_status = PStr ''completed'',
          pay_created_at = 1793720000000000, transaction_id = PStr ''TX3''\<rparr>,
         \<lparr>purpose = PStr ''Boost'', amount = PInt 10, pay_status = PStr ''completed'',
          pay_created_at = 1793690000000000, transaction_id = PStr ''TX4''\<rparr>,
         \<lparr>purpose = PStr ''Job post'', amount = PInt 50, pay_status = PStr ''failed'',
          pay_created_at = 1793730000000000, transaction_id = PStr []\<rparr>,
         \<lparr>purpose = PStr ''Job post'', amount = PInt 50, pay_status = PStr ''completed'',
          pay_created_at = 1793740000000000, transaction_id = PStr ''TX6''\<rparr>]\<rparr>"

definition world1 :: world where
  "world1 = world0\<lparr>store := db1, txn := db1\<rparr>"

text \<open>The empty database again, the server process two hours east of UTC.\<close>

definition world_east :: world where
  "world_east = world0\<lparr>utc_offset := 7200000000\<rparr>"

text \<open>Request bodies.\<close>

definition body_new_phone :: json where
  "body_new_phone = Object [(''title'', Scalar (PStr ''T'')), (''phone'', Scalar (PStr ''+260999''))]"

definition body_known_phone :: json where
  "body_known_phone = Object [(''title'', Scalar (PStr ''T'')), (''phone'', Scalar (PStr ''+260111''))]"

definition body_null_phone :: json where
  "body_null_phone = Object [(''title'', Scalar (PStr ''T'')), (''phone'', Scalar PNone)]"

definition body_daily_120 :: json where
  "body_daily_120 =
     Object [(''title'', Scalar (PStr ''T'')), (''salary'', Scalar (PInt 120)),
             (''type'', Scalar (PStr ''daily''))]"

definition body_salary_0 :: json where
  "body_salary_0 =
     Object [(''title'', Scalar (PStr ''T'')), (''salary'', Scalar (PInt 0)),
             (''type'', Scalar (PStr ''daily''))]"

definition body_no_salary :: json where
  "body_no_salary = Object [(''title'', Scalar (PStr ''T''))]"

section \<open>The job listing handler\<close>

lemmas io_defs = io_bind_def io_return_def lift_def driver_def

lemma mock_jobs_same: "mock_jobs_on_error = mock_jobs"
  by (simp add: mock_jobs_on_error_def mock_jobs_def)

lemma get_jobs_try_down: "\<not> reachable w \<Longrightarrow> fst (get_jobs_try w) = Inr (mock_jobs, 200)"
  by (simp add: get_jobs_try_def get_db_connection_def io_defs)

lemma get_jobs_try_live:
  "reachable w \<Longrightarrow> fst (get_jobs_try w) = Inr r \<Longrightarrow>
     \<exists>js. jobs_loop (select_jobs (clock w) (store w)) [] = Inr js \<and> r = (List js, 200)"
  by (auto simp: get_jobs_try_def get_db_connection_def io_defs cursor_def execute_def fetchall_def
       cursor_close_def conn_close_def run_sql_def split: option.splits sum.splits if_splits prod.splits)

lemma fst_get_jobs:
  "fst (get_jobs w) = (case fst (get_jobs_try w) of Inr r \<Rightarrow> r | Inl e \<Rightarrow> (mock_jobs_on_error, 200))"
  by (cases "get_jobs_try w") (simp add: get_jobs_def split: sum.splits)

lemma get_jobs_status: "status_of (get_jobs w) = 200"
proof (cases "fst (get_jobs_try w)")
  case (Inl e)
  then show ?thesis by (simp add: fst_get_jobs status_of_def)
next
  case (Inr r)
  show ?thesis
  proof (cases "reachable w")
    case False
    with Inr get_jobs_try_down [of w] show ?thesis by (auto simp: fst_get_jobs status_of_def)
  next
    case True
    with Inr get_jobs_try_live [of w r] show ?thesis by (auto simp: fst_get_jobs status_of_def)
  qed
qed

lemma world_down_unreachable: "\<not> reachable world_down"
  by (simp add: world_down_def world0_def)

lemma world_faulty_raises:
  "fst (get_jobs_try world_faulty) =
     Inl (Exn ''OperationalError'' ''server closed the connection unexpectedly'')"
  by (simp add: world_faulty_def world0_def get_jobs_try_def get_db_connection_def io_defs
        cursor_def execute_def)

text \<open>
  Claim C2. The job listing never shows an error: it always answers 200; without a
  connection, and whenever a step of the \<open>try\<close> block raises, the answer is the
  two-item mock list, the same in both branches (the two literals of the source are
  equal), with ids 1 and 2 and titles "Construction Worker" and "Farm Assistant".
\<close>

theorem get_jobs_never_errors:
  "status_of (get_jobs w) = 200 \<and>
   (\<not> reachable w \<longrightarrow> fst (get_jobs w) = (mock_jobs, 200)) \<and>
   (\<forall>e. fst (get_jobs_try w) = Inl e \<longrightarrow> fst (get_jobs w) = (mock_jobs, 200)) \<and>
   mock_jobs_on_error = mock_jobs \<and>
   map (field ''id'') (items mock_jobs) = [Some (Val (PInt 1)), Some (Val (PInt 2))] \<and>
   map (field ''title'') (items mock_jobs) =
     [Some (str ''Construction Worker''), Some (str ''Farm Assistant'')]"
proof -
  have a: "\<not> reachable w \<longrightarrow> fst (get_jobs w) = (mock_jobs, 200)"
    using get_jobs_try_down [of w] by (simp add: fst_get_jobs)
  have b: "\<forall>e. fst (get_jobs_try w) = Inl e \<longrightarrow> fst (get_jobs w) = (mock_jobs, 200)"
    by (simp add: fst_get_jobs mock_jobs_same)
  have c: "map (field ''id'') (items mock_jobs) = [Some (Val (PInt 1)), Some (Val (PInt 2))]"
    by (simp add: mock_jobs_def)
  have d: "map (field ''title'') (items mock_jobs) =
     [Some (str ''Construction Worker''), Some (str ''Farm Assistant'')]"
    by (simp add: mock_jobs_def)
  from get_jobs_status a b mock_jobs_same c d show ?thesis by blast
qed

theorem get_jobs_never_errors_witness:
  "\<not> reachable world_down \<and> fst (get_jobs world_down) = (mock_jobs, 200) \<and>
   fst (get_jobs_try world_faulty) =
     Inl (Exn ''OperationalError'' ''server closed the connection unexpectedly'') \<and>
   fst (get_jobs world_faulty) = (mock_jobs, 200)"
  using get_jobs_never_errors [of world_down] get_jobs_never_errors [of world_faulty]
    world_down_unreachable world_faulty_raises
  by blast

lemma job_dict_Inr:
  "job_dict job = Inr d \<longleftrightarrow>
     9 \<le> length job \<and>
     d = Dict [(''id'', Val (job ! 0)),
               (''title'', Val (job ! 1)),
               (''description'', py_or (job ! 2) ''No description available''),
               (''location'', py_or (job ! 3) ''Not specified''),
               (''salary'', if truthy (job ! 4)
                            then str (''K'' @ py_str (job ! 4) @ ''/'' @ py_str (job ! 5))
                            else str ''Negotiable''),
               (''type'', py_or (job ! 5) ''Not specified''),
               (''category'', str ''general''),
               (''company'', py_or (job ! 7) ''Company not specified''),
               (''posted'', py_or (job ! 8) ''Recently'')]"
  by (auto simp: job_dict_def sbind_def subscript_def)

lemma jobs_loop_Inr:
  "jobs_loop rows acc = Inr js \<longleftrightarrow>
     (\<exists>ds. list_all2 (\<lambda>row d. job_dict row = Inr d) rows ds \<and> js = acc @ ds)"
proof (induction rows arbitrary: acc)
  case Nil
  then show ?case by auto
next
  case (Cons row rows)
  show ?case
  proof (cases "job_dict row")
    case (Inl e)
    then show ?thesis by (auto simp: sbind_def list_all2_Cons1)
  next
    case (Inr d)
    then show ?thesis by (auto simp: sbind_def list_all2_Cons1 Cons.IH)
  qed
qed

lemma get_jobs_live_category:
  assumes "reachable w" "fst (get_jobs_try w) = Inr r"
  shows "\<forall>j \<in> set (items (fst r)). field ''category'' j = Some (str ''general'')"
proof -
  from get_jobs_try_live [OF assms] obtain js where
    js: "jobs_loop (select_jobs (clock w) (store w)) [] = Inr js" and r: "r = (List js, 200)"
    by blast
  from js obtain ds where
    "list_all2 (\<lambda>row d. job_dict row = Inr d) (select_jobs (clock w) (store w)) ds" "js = ds"
    by (auto simp: jobs_loop_Inr)
  then have "\<forall>d \<in> set js. \<exists>row. job_dict row = Inr d"
    by (fastforce simp: list_all2_conv_all_nth in_set_conv_nth)
  then show ?thesis using r by (auto simp: job_dict_Inr)
qed

lemma mock_categories:
  "map (field ''category'') (items mock_jobs) = [Some (str ''construction''), Some (str ''farming'')]"
  by (simp add: mock_jobs_def)

text \<open>
  Claim C9, amended. Every job object built from a row of the live query has category
  "general"; the two objects of the fallback list (no connection, or a step that raised)
  have the categories "construction" and "farming".
\<close>

theorem get_jobs_category:
  "(reachable w \<and> (\<exists>r. fst (get_jobs_try w) = Inr r) \<longrightarrow>
      (\<forall>j \<in> set (items (body_of (get_jobs w))). field ''category'' j = Some (str ''general''))) \<and>
   (\<not> reachable w \<or> (\<exists>e. fst (get_jobs_try w) = Inl e) \<longrightarrow>
      map (field ''category'') (items (body_of (get_jobs w))) =
        [Some (str ''construction''), Some (str ''farming'')])"
proof (intro conjI impI)
  assume "reachable w \<and> (\<exists>r. fst (get_jobs_try w) = Inr r)"
  then obtain r where "reachable w" "fst (get_jobs_try w) = Inr r" by blast
  with get_jobs_live_category [of w r]
  show "\<forall>j \<in> set (items (body_of (get_jobs w))). field ''category'' j = Some (str ''general'')"
    by (simp add: body_of_def fst_get_jobs)
next
  assume "\<not> reachable w \<or> (\<exists>e. fst (get_jobs_try w) = Inl e)"
  then have "fst (get_jobs w) = (mock_jobs, 200)"
    using get_jobs_try_down [of w] by (auto simp: fst_get_jobs mock_jobs_same)
  then show "map (field ''category'') (items (body_of (get_jobs w))) =
        [Some (str ''construction''), Some (str ''farming'')]"
    by (simp add: body_of_def mock_categories)
qed

lemma world1_reachable: "reachable world1"
  by (simp add: world1_def world0_def)

lemma world1_listing:
  "fst (get_jobs_try world1) =
     Inr (List
        [Dict
          [(''id'', Val (PInt 1)), (''title'', Val (PStr ''Driver'')),
           (''description'', Val (PStr ''No description available'')),
           (''location'', Val (PStr ''Lusaka'')),
           (''salary'', Val (PStr ''K120/daily'')),
           (''type'', Val (PStr ''daily'')),
           (''category'', Val (PStr ''general'')),
           (''company'', Val (PStr ''Acme Farms'')),
           (''posted'', Val (PStr ''Just now''))],
         Dict
          [(''id'', Val (PInt 2)), (''title'', Val (PStr ''Picker'')),
           (''description'', Val (PStr ''Maize'')),
           (''location'', Val (PStr ''Not specified'')),
           (''salary'', Val (PStr ''Negotiable'')),
           (''type'', Val (PStr ''daily'')),
           (''category'', Val (PStr ''general'')),
           (''company'', Val (PStr ''Acme Farms'')),
           (''posted'', Val (PStr ''3 hours ago''))],
         Dict
          [(''id'', Val (PInt 3)), (''title'', Val (PStr ''Guard'')),
           (''description'', Val (PStr ''No description available'')),
           (''location'', Val (PStr ''Not specified'')),
           (''salary'', Val (PStr ''Negotiable'')),
           (''type'', Val (PStr ''Not specified'')),
           (''category'', Val (PStr ''general'')),
           (''company'', Val (PStr ''Company not specified'')),
           (''posted'', Val (PStr ''05 Oct 2026''))]],
       200)"
  by code_simp

theorem get_jobs_category_witness:
  "reachable world1 \<and> length (items (body_of (get_jobs world1))) = 3 \<and>
   list_all (\<lambda>j. field ''category'' j = Some (str ''general'')) (items (body_of (get_jobs world1))) \<and>
   \<not> reachable world_down \<and>
   map (field ''category'') (items (body_of (get_jobs world_down))) =
     [Some (str ''construction''), Some (str ''farming'')]"
proof -
  have len: "length (items (body_of (get_jobs world1))) = 3"
    by (simp add: body_of_def fst_get_jobs world1_listing)
  from get_jobs_category [of world1] world1_reachable world1_listing
  have "\<forall>j \<in> set (items (body_of (get_jobs world1))). field ''category'' j = Some (str ''general'')"
    by blast
  then have live: "list_all (\<lambda>j. field ''category'' j = Some (str ''general''))
      (items (body_of (get_jobs world1)))"
    by (simp add: list_all_iff)
  from get_jobs_category [of world_down] world_down_unreachable
  have "map (field ''category'') (items (body_of (get_jobs world_down))) =
     [Some (str ''construction''), Some (str ''farming'')]"
    by blast
  with world1_reachable len live world_down_unreachable show ?thesis by blast
qed

text \<open>
  Claim C9 as stated fails on the fallback branch: with the database down the first
  object's category is "construction".
\<close>

theorem get_jobs_category_counterexample:
  "map (field ''category'') (items (body_of (get_jobs world_down))) =
     [Some (str ''construction''), Some (str ''farming'')] \<and>
   Some (str ''construction'') \<noteq> Some (str ''general'')"
  by (simp add: body_of_def fst_get_jobs get_jobs_try_down world_down_unreachable mock_categories str_def)

section \<open>Job creation: the empty body\<close>



section \<open>The health check\<close>

lemma fst_health_check:
  "fst (health_check w) =
     (case health_check_try w of
        (Inr r, w') \<Rightarrow> r
      | (Inl e, w') \<Rightarrow>
          (Dict [(''status'', str ''error''), (''message'', str (str_e e)),
                 (''timestamp'', str (isoformat (datetime_now w')))], 500))"
  by (simp add: health_check_def split: prod.splits sum.splits)

lemma health_check_try_clock:
  "datetime_now (snd (health_check_try w)) = datetime_now w"
  by (simp add: health_check_try_def get_db_connection_def conn_close_def now_isoformat_def
        io_defs datetime_now_def split: option.splits)

text \<open>
  Claim C7, amended. With a reachable database whose \<open>close\<close> does not raise, the
  health check opens a connection, closes it at once and answers 200 with database
  "connected"; with an unreachable one it answers 503 with database "disconnected";
  when the check itself raises it answers 500 with the exception's text. The timestamp
  is in every case \<open>datetime.now()\<close>, the local time of the server process.
\<close>

theorem health_check_outcomes:
  "(reachable w \<and> faults w (Suc (length (trace w))) = None \<longrightarrow>
      fst (health_check w) =
        (Dict [(''status'', str ''healthy''), (''database'', str ''connected''),
               (''timestamp'', str (isoformat (clock w + utc_offset w)))], 200) \<and>
      trace (snd (health_check w)) = trace w @ [Connect, Conn_close]) \<and>
   (\<not> reachable w \<longrightarrow>
      fst (health_check w) =
        (Dict [(''status'', str ''unhealthy''), (''database'', str ''disconnected''),
               (''timestamp'', str (isoformat (clock w + utc_offset w)))], 503)) \<and>
   (\<forall>e. fst (health_check_try w) = Inl e \<longrightarrow>
      fst (health_check w) =
        (Dict [(''status'', str ''error''), (''message'', str (str_e e)),
               (''timestamp'', str (isoformat (clock w + utc_offset w)))], 500))"
proof (intro conjI impI allI)
  assume "reachable w \<and> faults w (Suc (length (trace w))) = None"
  then show "fst (health_check w) =
        (Dict [(''status'', str ''healthy''), (''database'', str ''connected''),
               (''timestamp'', str (isoformat (clock w + utc_offset w)))], 200)"
    and "trace (snd (health_check w)) = trace w @ [Connect, Conn_close]"
    by (simp_all add: health_check_def health_check_try_def get_db_connection_def conn_close_def
        now_isoformat_def io_defs datetime_now_def)
next
  assume "\<not> reachable w"
  then show "fst (health_check w) =
        (Dict [(''status'', str ''unhealthy''), (''database'', str ''disconnected''),
               (''timestamp'', str (isoformat (clock w + utc_offset w)))], 503)"
    by (simp add: health_check_def health_check_try_def get_db_connection_def
        now_isoformat_def io_defs datetime_now_def)
next
  fix e assume e: "fst (health_check_try w) = Inl e"
  have "datetime_now (snd (health_check_try w)) = clock w + utc_offset w"
    using health_check_try_clock [of w] by (simp only: datetime_now_def)
  with e show "fst (health_check w) =
        (Dict [(''status'', str ''error''), (''message'', str (str_e e)),
               (''timestamp'', str (isoformat (clock w + utc_offset w)))], 500)"
    by (cases "health_check_try w") (simp add: fst_health_check)
qed

lemma world0_eval:
  "reachable world0" "faults world0 (Suc (length (trace world0))) = None"
  "clock world0 + utc_offset world0 = 1793800000000000" "trace world0 = []"
  by (simp_all add: world0_def)

lemma world_down_eval:
  "clock world_down + utc_offset world_down = 1793800000000000"
  by (simp add: world_down_def world0_def)

lemma world_close_fails_eval:
  "fst (health_check_try world_close_fails) = Inl (Exn ''InterfaceError'' ''connection already closed'')"
  "clock world_close_fails + utc_offset world_close_fails = 1793800000000000"
  by (simp_all add: world_close_fails_def world0_def health_check_try_def get_db_connection_def
      conn_close_def io_defs)

lemma iso_sample: "isoformat 1793800000000000 = ''2026-11-04T13:46:40''"
  by code_simp

theorem health_check_outcomes_witness:
  "reachable world0 \<and> faults world0 (Suc (length (trace world0))) = None \<and>
   fst (health_check world0) =
     (Dict [(''status'', str ''healthy''), (''database'', str ''connected''),
            (''timestamp'', str ''2026-11-04T13:46:40'')], 200) \<and>
   trace (snd (health_check world0)) = [Connect, Conn_close] \<and>
   \<not> reachable world_down \<and>
   fst (health_check world_down) =
     (Dict [(''status'', str ''unhealthy''), (''database'', str ''disconnected''),
            (''timestamp'', str ''2026-11-04T13:46:40'')], 503) \<and>
   fst (health_check_try world_close_fails) =
     Inl (Exn ''InterfaceError'' ''connection already closed'') \<and>
   fst (health_check world_close_fails) =
     (Dict [(''status'', str ''error''), (''message'', str ''connection already closed''),
            (''timestamp'', str ''2026-11-04T13:46:40'')], 500)"
  using health_check_outcomes [of world0] health_check_outcomes [of world_down]
    health_check_outcomes [of world_close_fails]
    world0_eval world_down_unreachable world_down_eval world_close_fails_eval iso_sample
  by simp

lemma iso_east: "isoformat (1793800000000000 + 7200000000) = ''2026-11-04T15:46:40''"
  by code_simp

text \<open>
  Claim C7 as stated fails on the timestamp: on a server two hours east of UTC the
  healthy answer carries 15:46:40 while the time in UTC is 13:46:40.
\<close>

theorem health_check_timestamp_counterexample:
  "reachable world_east \<and> status_of (health_check world_east) = 200 \<and>
   field ''timestamp'' (body_of (health_check world_east)) = Some (str ''2026-11-04T15:46:40'') \<and>
   isoformat (clock world_east) = ''2026-11-04T13:46:40''"
  using iso_east iso_sample
  by (simp add: world_east_def world0_def status_of_def body_of_def health_check_def
      health_check_try_def get_db_connection_def conn_close_def now_isoformat_def io_defs
      datetime_now_def)

section \<open>Successful runs, step by step\<close>

lemma io_bind_Inr:
  "io_bind m f w = (Inr b, w'') \<Longrightarrow> \<exists>a w'. m w = (Inr a, w') \<and> f a w' = (Inr b, w'')"
  by (auto simp: io_bind_def split: prod.splits sum.splits)

lemma io_return_run: "io_return a w = (r, w') \<longleftrightarrow> r = Inr a \<and> w' = w"
  by (auto simp: io_return_def)

lemma lift_run: "lift x w = (r, w') \<longleftrightarrow> x = r \<and> w' = w"
  by (auto simp: lift_def)

lemma now_isoformat_run:
  "now_isoformat w = (r, w') \<longleftrightarrow> r = Inr (isoformat (datetime_now w)) \<and> w' = w"
  by (auto simp: now_isoformat_def)

lemma get_db_connection_run:
  "get_db_connection w = (r, w') \<longleftrightarrow>
     r = Inr (reachable w) \<and>
     w' = (if reachable w then w\<lparr>txn := store w, result := [], trace := trace w @ [Connect]\<rparr>
           else w\<lparr>trace := trace w @ [Connect]\<rparr>)"
  by (auto simp: get_db_connection_def)

lemma driver_Inr:
  "driver c w = (Inr u, w') \<longleftrightarrow>
     faults w (length (trace w)) = None \<and> w' = w\<lparr>trace := trace w @ [c]\<rparr>"
  by (auto simp: driver_def split: option.splits)

lemma execute_Inr:
  "execute s w = (Inr u, w') \<longleftrightarrow>
     faults w (length (trace w)) = None \<and>
     (\<exists>rows w1. run_sql s (w\<lparr>trace := trace w @ [Execute s]\<rparr>) = Inr (rows, w1) \<and>
        w' = w1\<lparr>result := rows\<rparr>)"
  by (auto simp: execute_def io_bind_def driver_def split: option.splits sum.splits prod.splits)

lemma fetchone_Inr:
  "fetchone w = (Inr r, w') \<longleftrightarrow>
     faults w (length (trace w)) = None \<and>
     (case result w of
        [] \<Rightarrow> r = None \<and> w' = w\<lparr>trace := trace w @ [Fetchone]\<rparr>
      | x # xs \<Rightarrow> r = Some x \<and> w' = w\<lparr>trace := trace w @ [Fetchone], result := xs\<rparr>)"
  by (auto simp: fetchone_def io_bind_def driver_def split: option.splits list.splits)

lemma fetchall_Inr:
  "fetchall w = (Inr rows, w') \<longleftrightarrow>
     faults w (length (trace w)) = None \<and> rows = result w \<and>
     w' = w\<lparr>trace := trace w @ [Fetchall], result := []\<rparr>"
  by (auto simp: fetchall_def io_bind_def driver_def split: option.splits)

lemma conn_close_Inr:
  "conn_close w = (Inr u, w') \<longleftrightarrow>
     faults w (length (trace w)) = None \<and>
     w' = w\<lparr>trace := trace w @ [Conn_close], txn := store w\<rparr>"
  by (auto simp: conn_close_def io_bind_def driver_def split: option.splits)

lemma commit_Inr:
  "commit w = (Inr u, w') \<longleftrightarrow>
     faults w (length (trace w)) = None \<and>
     w' = w\<lparr>trace := trace w @ [Commit], store := txn w\<rparr>"
  by (auto simp: commit_def io_bind_def driver_def split: option.splits)

text \<open>Unfolding everything, to run a handler on a sample world.\<close>

lemmas eval_defs = get_db_connection_def cursor_def execute_def fetchone_def fetchall_def
  cursor_close_def conn_close_def commit_def now_isoformat_def io_defs run_sql_def sbind_def
  subscript_def subscript_opt_def

lemmas run_simps =
  io_return_run lift_run now_isoformat_run get_db_connection_run driver_Inr execute_Inr
  fetchone_Inr fetchall_Inr conn_close_Inr commit_Inr cursor_def cursor_close_def

section \<open>The statistics handler\<close>


lemma or_0_int [simp]: "or_0 (PInt n) = PInt n"
  by (simp add: or_0_def)









section \<open>Job creation\<close>

lemma io_bind_cases:
  "io_bind m f w = (r, w'') \<Longrightarrow>
     (\<exists>e. m w = (Inl e, w'') \<and> r = Inl e) \<or> (\<exists>a w'. m w = (Inr a, w') \<and> f a w' = (r, w''))"
  by (auto simp: io_bind_def split: prod.splits sum.splits)

lemma driver_Inl:
  "driver c w = (Inl e, w') \<longleftrightarrow>
     faults w (length (trace w)) = Some e \<and> w' = w\<lparr>trace := trace w @ [c]\<rparr>"
  by (auto simp: driver_def split: option.splits)

lemma execute_Inl:
  "execute s w = (Inl e, w') \<Longrightarrow> w' = w\<lparr>trace := trace w @ [Execute s]\<rparr>"
  by (auto simp: execute_def io_bind_def driver_def split: option.splits sum.splits prod.splits)

lemma fetchone_Inl:
  "fetchone w = (Inl e, w') \<Longrightarrow> w' = w\<lparr>trace := trace w @ [Fetchone]\<rparr>"
  by (auto simp: fetchone_def io_bind_def driver_def split: option.splits list.splits)

lemma conn_close_Inl:
  "conn_close w = (Inl e, w') \<Longrightarrow> w' = w\<lparr>trace := trace w @ [Conn_close]\<rparr>"
  by (auto simp: conn_close_def io_bind_def driver_def split: option.splits)

lemma commit_Inl:
  "commit w = (Inl e, w') \<Longrightarrow> w' = w\<lparr>trace := trace w @ [Commit]\<rparr>"
  by (auto simp: commit_def io_bind_def driver_def split: option.splits)

lemmas fail_dests = execute_Inl fetchone_Inl conn_close_Inl commit_Inl

lemma run_sql_select_employer:
  "run_sql (Select_employer ph) w = Inr (rows, w1) \<longleftrightarrow>
     (\<exists>p. adapt ph = Inr p \<and> rows = select_employer p (txn w) \<and> w1 = w)"
  by (auto simp: run_sql_def sbind_def split: sum.splits)

lemma run_sql_insert_employer:
  "run_sql (Insert_employer ph co bt) w = Inr (rows, w1) \<longleftrightarrow>
     (\<exists>p c b. adapt ph = Inr p \<and> adapt co = Inr c \<and> adapt bt = Inr b \<and>
        rows = [[PInt (employers_seq w + 1)]] \<and>
        w1 = w\<lparr>employers_seq := employers_seq w + 1,
               txn := (txn w)\<lparr>employers := employers (txn w) @
                  [\<lparr>emp_id = employers_seq w + 1, phone_number = p, company_name = c,
                    business_type = b\<rparr>]\<rparr>\<rparr>)"
  by (auto simp: run_sql_def sbind_def Let_def split: sum.splits)

lemma run_sql_insert_job:
  "run_sql (Insert_job em ti de lo pa pt) w = Inr (rows, w1) \<longleftrightarrow>
     (\<exists>e t d l a y. adapt em = Inr e \<and> adapt ti = Inr t \<and> adapt de = Inr d \<and>
        adapt lo = Inr l \<and> adapt pa = Inr a \<and> adapt pt = Inr y \<and>
        rows = [[PInt (jobs_seq w + 1)]] \<and>
        w1 = w\<lparr>jobs_seq := jobs_seq w + 1,
               txn := (txn w)\<lparr>jobs := jobs (txn w) @
                  [\<lparr>job_id = jobs_seq w + 1, employer_id = e, title = t, description = d,
                    location = l, payment_amount = a, payment_type = y,
                    job_status = PStr ''active'', job_created_at = clock w\<rparr>]\<rparr>\<rparr>)"
  by (auto simp: run_sql_def sbind_def Let_def split: sum.splits)

text \<open>Neither block commits: whatever happens, the committed state stays.\<close>

lemma get_or_create_employer_store:
  "get_or_create_employer data w = (r, w') \<Longrightarrow> store w' = store w"
  by (auto simp: get_or_create_employer_def run_simps run_sql_select_employer
        run_sql_insert_employer
      dest!: io_bind_cases fail_dests split: if_splits list.splits)

lemma insert_job_store:
  "insert_job data eid w = (r, w') \<Longrightarrow> store w' = store w"
  by (auto simp: insert_job_def run_simps run_sql_insert_job
      dest!: io_bind_cases fail_dests split: if_splits list.splits)

text \<open>What the first block does when it returns.\<close>

lemma get_or_create_employer_phone:
  assumes "get_or_create_employer data w = (Inr eid, w')"
  shows "\<exists>ph p. py_get data ''phone'' (Scalar (PStr ''+260570528201'')) = Inr ph \<and>
      adapt ph = Inr p"
  using assms
  by (auto simp: get_or_create_employer_def run_simps run_sql_select_employer
      dest!: io_bind_Inr)

lemma get_or_create_employer_Inr:
  assumes "get_or_create_employer data w = (Inr eid, w')"
    and "py_get data ''phone'' (Scalar (PStr ''+260570528201'')) = Inr ph"
    and "adapt ph = Inr p"
  shows "jobs_seq w' = jobs_seq w \<and> clock w' = clock w \<and> faults w' = faults w \<and>
      (case select_employer p (txn w) of
         [] \<Rightarrow>
           (\<exists>co c. py_get data ''company'' (Scalar (PStr ''Individual Employer'')) = Inr co \<and>
              adapt co = Inr c \<and> eid = PInt (employers_seq w + 1) \<and>
              txn w' = (txn w)\<lparr>employers := employers (txn w) @
                 [\<lparr>emp_id = employers_seq w + 1, phone_number = p, company_name = c,
                   business_type = PStr ''Various''\<rparr>]\<rparr>)
       | row # rest \<Rightarrow> eid = row ! 0 \<and> txn w' = txn w)"
  using assms
  by (auto simp: get_or_create_employer_def run_simps run_sql_select_employer
        run_sql_insert_employer row_truthy_def subscript_opt_def subscript_def select_employer_def
      dest!: io_bind_Inr split: if_splits list.splits)

lemma insert_job_Inr:
  assumes "insert_job data eid w = (Inr jid, w')"
  shows "\<exists>ti de lo sa ty t d l a y.
      py_get data ''title'' (Scalar PNone) = Inr ti \<and> adapt ti = Inr t \<and>
      py_get data ''description'' (Scalar PNone) = Inr de \<and> adapt de = Inr d \<and>
      py_get data ''location'' (Scalar PNone) = Inr lo \<and> adapt lo = Inr l \<and>
      py_get data ''salary'' (Scalar (PInt 0)) = Inr sa \<and> adapt sa = Inr a \<and>
      py_get data ''type'' (Scalar (PStr ''daily'')) = Inr ty \<and> adapt ty = Inr y \<and>
      jid = PInt (jobs_seq w + 1) \<and>
      txn w' = (txn w)\<lparr>jobs := jobs (txn w) @
         [\<lparr>job_id = jobs_seq w + 1, employer_id = eid, title = t, description = d,
           location = l, payment_amount = a, payment_type = y,
           job_status = PStr ''active'', job_created_at = clock w\<rparr>]\<rparr>"
  using assms
  by (auto simp: insert_job_def run_simps run_sql_insert_job subscript_opt_def subscript_def
      dest!: io_bind_Inr split: if_splits list.splits)

text \<open>
  The committed state changes only at \<open>commit\<close>, which is reached only after both
  blocks returned; it may be reached although a later \<open>close\<close> raises.
\<close>

lemma create_job_try_store:
  assumes "create_job_try body w = (r, w')"
  shows "store w' = store w \<or>
    (\<exists>data eid jid w1 w2. body = Inr data \<and> truthy_json data \<and> reachable w \<and>
       get_or_create_employer data (after_connect w) = (Inr eid, w1) \<and>
       insert_job data eid w1 = (Inr jid, w2) \<and> store w' = txn w2)"
proof -
  have keep1: "\<And>data v r v'. get_or_create_employer data v = (r, v') \<Longrightarrow> store v' = store v"
    by (rule get_or_create_employer_store)
  have keep2: "\<And>data eid v r v'. insert_job data eid v = (r, v') \<Longrightarrow> store v' = store v"
    by (rule insert_job_store)
  from assms show ?thesis
    apply (simp add: create_job_try_def)
    apply (auto simp: run_simps driver_Inl after_connect_def
        dest!: io_bind_cases fail_dests split: if_splits)
      apply (drule keep1, simp)
     apply (drule keep1, drule keep2, simp)
    apply (frule keep1, frule keep2, simp)
    done
qed

lemma create_job_try_200:
  assumes "create_job_try body w = (Inr (b, 200), w')"
  shows "\<exists>data eid jid w1 w2. body = Inr data \<and> truthy_json data \<and> reachable w \<and>
       get_or_create_employer data (after_connect w) = (Inr eid, w1) \<and>
       insert_job data eid w1 = (Inr jid, w2) \<and> store w' = txn w2 \<and>
       b = Dict [(''success'', Val (PBool True)), (''job_id'', Val jid),
                 (''message'', str ''Job created successfully'')]"
  using assms
  by (auto simp: create_job_try_def run_simps after_connect_def
      dest!: io_bind_Inr split: if_splits)

lemma snd_create_job: "snd (create_job body w) = snd (create_job_try body w)"
  by (simp add: create_job_def split: prod.splits sum.splits)

lemma fst_create_job:
  "fst (create_job body w) =
     (case fst (create_job_try body w) of
        Inr r \<Rightarrow> r
      | Inl e \<Rightarrow> (Dict [(''success'', Val (PBool False)), (''error'', str (str_e e))], 500))"
  by (cases "create_job_try body w") (simp add: create_job_def split: sum.splits)

lemma create_job_200:
  assumes "status_of (create_job body w) = 200"
  shows "\<exists>b. create_job_try body w = (Inr (b, 200), snd (create_job body w)) \<and>
      body_of (create_job body w) = b"
  using assms
  by (cases "create_job_try body w"; cases "fst (create_job_try body w)")
    (auto simp: status_of_def body_of_def fst_create_job snd_create_job)

lemma select_employer_empty:
  "select_employer p db = [] \<longleftrightarrow> \<not> (\<exists>e \<in> set (employers db). sql_eq (phone_number e) p)"
  by (auto simp: select_employer_def filter_empty_conv)

lemma select_employer_first:
  assumes "select_employer p db = row # rest"
  shows "\<exists>z \<in> set (employers db). sql_eq (phone_number z) p \<and> row ! 0 = PInt (emp_id z)"
proof -
  from assms obtain z zs where
    f: "filter (\<lambda>e. sql_eq (phone_number e) p) (employers db) = z # zs" and
    row: "row = [PInt (emp_id z)]"
    by (auto simp: select_employer_def)
  from f have "z \<in> set (filter (\<lambda>e. sql_eq (phone_number e) p) (employers db))" by simp
  with row show ?thesis by auto
qed

text \<open>The state that \<open>commit\<close> publishes, once both blocks have returned.\<close>

lemma committed_state:
  assumes g: "get_or_create_employer data (after_connect w) = (Inr eid, w1)"
    and i: "insert_job data eid w1 = (Inr jid, w2)"
    and ph: "py_get data ''phone'' (Scalar (PStr ''+260570528201'')) = Inr ph"
    and p: "adapt ph = Inr p"
  shows "\<exists>j sa ty.
      jobs (txn w2) = jobs (store w) @ [j] \<and> jid = PInt (job_id j) \<and> employer_id j = eid \<and>
      job_status j = PStr ''active'' \<and> job_created_at j = clock w \<and>
      py_get data ''salary'' (Scalar (PInt 0)) = Inr sa \<and> adapt sa = Inr (payment_amount j) \<and>
      py_get data ''type'' (Scalar (PStr ''daily'')) = Inr ty \<and> adapt ty = Inr (payment_type j) \<and>
      users (txn w2) = users (store w) \<and> payments (txn w2) = payments (store w) \<and>
      (case select_employer p (store w) of
         [] \<Rightarrow> \<exists>e. employers (txn w2) = employers (store w) @ [e] \<and> phone_number e = p \<and>
                  eid = PInt (emp_id e)
       | row # rest \<Rightarrow> employers (txn w2) = employers (store w) \<and> eid = row ! 0)"
proof -
  from get_or_create_employer_Inr [OF g ph p]
  have w1: "jobs_seq w1 = jobs_seq w" "clock w1 = clock w"
    and emp: "case select_employer p (store w) of
         [] \<Rightarrow>
           (\<exists>co c. py_get data ''company'' (Scalar (PStr ''Individual Employer'')) = Inr co \<and>
              adapt co = Inr c \<and> eid = PInt (employers_seq w + 1) \<and>
              txn w1 = (store w)\<lparr>employers := employers (store w) @
                 [\<lparr>emp_id = employers_seq w + 1, phone_number = p, company_name = c,
                   business_type = PStr ''Various''\<rparr>]\<rparr>)
       | row # rest \<Rightarrow> eid = row ! 0 \<and> txn w1 = store w"
    by (auto simp: after_connect_def split: list.splits)
  from insert_job_Inr [OF i] obtain ti de lo sa ty t d l a y where
    sa: "py_get data ''salary'' (Scalar (PInt 0)) = Inr sa" "adapt sa = Inr a" and
    ty: "py_get data ''type'' (Scalar (PStr ''daily'')) = Inr ty" "adapt ty = Inr y" and
    jid: "jid = PInt (jobs_seq w1 + 1)" and
    txn: "txn w2 = (txn w1)\<lparr>jobs := jobs (txn w1) @
         [\<lparr>job_id = jobs_seq w1 + 1, employer_id = eid, title = t, description = d,
           location = l, payment_amount = a, payment_type = y,
           job_status = PStr ''active'', job_created_at = clock w1\<rparr>]\<rparr>"
    by blast
  show ?thesis
  proof (cases "select_employer p (store w)")
    case Nil
    with emp txn sa ty jid w1 show ?thesis by auto
  next
    case (Cons row rest)
    with emp txn sa ty jid w1 show ?thesis by auto
  qed
qed

lemma create_job_existing_employer:
  assumes ph: "py_get data ''phone'' (Scalar (PStr ''+260570528201'')) = Inr ph"
    and p: "adapt ph = Inr p"
    and ex: "\<exists>e \<in> set (employers (store w)). sql_eq (phone_number e) p"
  shows "employers (store (snd (create_job (Inr data) w))) = employers (store w)"
proof -
  obtain r w' where run: "create_job_try (Inr data) w = (r, w')"
    by (cases "create_job_try (Inr data) w")
  from create_job_try_store [OF run] show ?thesis
  proof
    assume "store w' = store w"
    with run show ?thesis by (simp add: snd_create_job)
  next
    assume "\<exists>data' eid jid w1 w2. Inr data = Inr data' \<and> truthy_json data' \<and> reachable w \<and>
       get_or_create_employer data' (after_connect w) = (Inr eid, w1) \<and>
       insert_job data' eid w1 = (Inr jid, w2) \<and> store w' = txn w2"
    then obtain eid jid w1 w2 where
      g: "get_or_create_employer data (after_connect w) = (Inr eid, w1)" and
      i: "insert_job data eid w1 = (Inr jid, w2)" and s: "store w' = txn w2"
      by auto
    from ex have "select_employer p (store w) \<noteq> []" by (simp add: select_employer_empty)
    with committed_state [OF g i ph p] have "employers (txn w2) = employers (store w)"
      by (auto split: list.splits)
    with s run show ?thesis by (simp add: snd_create_job)
  qed
qed

lemma create_job_at_most_one_employer:
  "employers (store (snd (create_job body w))) = employers (store w) \<or>
   (\<exists>e. employers (store (snd (create_job body w))) = employers (store w) @ [e])"
proof -
  obtain r w' where run: "create_job_try body w = (r, w')"
    by (cases "create_job_try body w")
  from create_job_try_store [OF run] show ?thesis
  proof
    assume "store w' = store w"
    with run show ?thesis by (simp add: snd_create_job)
  next
    assume "\<exists>data eid jid w1 w2. body = Inr data \<and> truthy_json data \<and> reachable w \<and>
       get_or_create_employer data (after_connect w) = (Inr eid, w1) \<and>
       insert_job data eid w1 = (Inr jid, w2) \<and> store w' = txn w2"
    then obtain data eid jid w1 w2 where
      g: "get_or_create_employer data (after_connect w) = (Inr eid, w1)" and
      i: "insert_job data eid w1 = (Inr jid, w2)" and s: "store w' = txn w2"
      by auto
    from get_or_create_employer_phone [OF g] obtain ph p where
      ph: "py_get data ''phone'' (Scalar (PStr ''+260570528201'')) = Inr ph" and
      p: "adapt ph = Inr p" by blast
    from committed_state [OF g i ph p]
    have "employers (txn w2) = employers (store w) \<or>
      (\<exists>e. employers (txn w2) = employers (store w) @ [e])"
      by (auto split: list.splits)
    with s run show ?thesis by (simp add: snd_create_job)
  qed
qed

text \<open>What a 200 answer of job creation means for the committed state.\<close>

lemma create_job_success:
  assumes ok: "status_of (create_job (Inr data) w) = 200"
    and ph: "py_get data ''phone'' (Scalar (PStr ''+260570528201'')) = Inr ph"
    and p: "adapt ph = Inr p"
  shows "\<exists>j sa ty.
      jobs (store (snd (create_job (Inr data) w))) = jobs (store w) @ [j] \<and>
      field ''job_id'' (body_of (create_job (Inr data) w)) = Some (Val (PInt (job_id j))) \<and>
      job_status j = PStr ''active'' \<and> job_created_at j = clock w \<and>
      py_get data ''salary'' (Scalar (PInt 0)) = Inr sa \<and> adapt sa = Inr (payment_amount j) \<and>
      py_get data ''type'' (Scalar (PStr ''daily'')) = Inr ty \<and> adapt ty = Inr (payment_type j) \<and>
      users (store (snd (create_job (Inr data) w))) = users (store w) \<and>
      payments (store (snd (create_job (Inr data) w))) = payments (store w) \<and>
      (case select_employer p (store w) of
         [] \<Rightarrow> \<exists>e. employers (store (snd (create_job (Inr data) w))) = employers (store w) @ [e] \<and>
                  phone_number e = p \<and> employer_id j = PInt (emp_id e)
       | row # rest \<Rightarrow>
           employers (store (snd (create_job (Inr data) w))) = employers (store w) \<and>
           employer_id j = row ! 0)"
proof -
  from create_job_200 [OF ok] obtain b where
    run: "create_job_try (Inr data) w = (Inr (b, 200), snd (create_job (Inr data) w))" and
    b: "body_of (create_job (Inr data) w) = b" by blast
  from create_job_try_200 [OF run] obtain eid jid w1 w2 where
    g: "get_or_create_employer data (after_connect w) = (Inr eid, w1)" and
    i: "insert_job data eid w1 = (Inr jid, w2)" and
    s: "store (snd (create_job (Inr data) w)) = txn w2" and
    bd: "b = Dict [(''success'', Val (PBool True)), (''job_id'', Val jid),
                 (''message'', str ''Job created successfully'')]"
    by auto
  from committed_state [OF g i ph p] s b bd show ?thesis
    by (auto split: list.splits)
qed

text \<open>
  Claim C1, amended. Job creation looks the employer up by the body's \<open>phone\<close>
  (the default when the key is absent) before it inserts. It never adds more than one
  employer row. When a row with that phone number exists, no employer row is added,
  whatever else happens, and on success the new job carries the identity key of such
  a row. When none exists and the call succeeds, exactly one employer row with that
  phone number and exactly one job row are added, and \<open>job_id\<close> in the answer is
  the new job's key. After a successful call with a phone number that is not
  \<open>null\<close>, a further call with the same phone number leaves the employer count as
  it is.
\<close>

theorem create_job_reuses_employer:
  "(employers (store (snd (create_job body w))) = employers (store w) \<or>
      (\<exists>e. employers (store (snd (create_job body w))) = employers (store w) @ [e])) \<and>
   (\<forall>data ph p.
      body = Inr data \<and> py_get data ''phone'' (Scalar (PStr ''+260570528201'')) = Inr ph \<and>
      adapt ph = Inr p \<longrightarrow>
      ((\<exists>e \<in> set (employers (store w)). sql_eq (phone_number e) p) \<longrightarrow>
         employers (store (snd (create_job body w))) = employers (store w) \<and>
         (status_of (create_job body w) = 200 \<longrightarrow>
            (\<exists>j z. jobs (store (snd (create_job body w))) = jobs (store w) @ [j] \<and>
               z \<in> set (employers (store w)) \<and> sql_eq (phone_number z) p \<and>
               employer_id j = PInt (emp_id z)))) \<and>
      (\<not> (\<exists>e \<in> set (employers (store w)). sql_eq (phone_number e) p) \<and>
       status_of (create_job body w) = 200 \<longrightarrow>
         (\<exists>e j. employers (store (snd (create_job body w))) = employers (store w) @ [e] \<and>
            phone_number e = p \<and>
            jobs (store (snd (create_job body w))) = jobs (store w) @ [j] \<and>
            employer_id j = PInt (emp_id e) \<and>
            field ''job_id'' (body_of (create_job body w)) = Some (Val (PInt (job_id j))))) \<and>
      (p \<noteq> PNone \<and> status_of (create_job body w) = 200 \<longrightarrow>
         (\<forall>data2 w2.
            py_get data2 ''phone'' (Scalar (PStr ''+260570528201'')) = Inr ph \<and>
            store w2 = store (snd (create_job body w)) \<longrightarrow>
            length (employers (store (snd (create_job (Inr data2) w2)))) =
              length (employers (store (snd (create_job body w)))))))"
proof (intro conjI allI impI)
  show "employers (store (snd (create_job body w))) = employers (store w) \<or>
      (\<exists>e. employers (store (snd (create_job body w))) = employers (store w) @ [e])"
    by (rule create_job_at_most_one_employer)
next
  fix data ph p
  assume h: "body = Inr data \<and> py_get data ''phone'' (Scalar (PStr ''+260570528201'')) = Inr ph \<and>
      adapt ph = Inr p"
  then have body: "body = Inr data"
    and ph: "py_get data ''phone'' (Scalar (PStr ''+260570528201'')) = Inr ph"
    and p: "adapt ph = Inr p" by simp_all
  {
    assume ex: "\<exists>e \<in> set (employers (store w)). sql_eq (phone_number e) p"
    from create_job_existing_employer [OF ph p ex] body
    show "employers (store (snd (create_job body w))) = employers (store w)" by simp
    assume ok: "status_of (create_job body w) = 200"
    from ex obtain row rest where sel: "select_employer p (store w) = row # rest"
      by (cases "select_employer p (store w)") (auto simp: select_employer_empty)
    from select_employer_first [OF sel] obtain z where
      z: "z \<in> set (employers (store w))" "sql_eq (phone_number z) p" "row ! 0 = PInt (emp_id z)"
      by blast
    from create_job_success [OF ok [unfolded body] ph p] sel z body
    show "\<exists>j z. jobs (store (snd (create_job body w))) = jobs (store w) @ [j] \<and>
               z \<in> set (employers (store w)) \<and> sql_eq (phone_number z) p \<and>
               employer_id j = PInt (emp_id z)"
      by auto
  }
  {
    assume "\<not> (\<exists>e \<in> set (employers (store w)). sql_eq (phone_number e) p) \<and>
       status_of (create_job body w) = 200"
    then have sel: "select_employer p (store w) = []" and ok: "status_of (create_job body w) = 200"
      by (simp_all add: select_employer_empty)
    from create_job_success [OF ok [unfolded body] ph p] sel body
    show "\<exists>e j. employers (store (snd (create_job body w))) = employers (store w) @ [e] \<and>
            phone_number e = p \<and>
            jobs (store (snd (create_job body w))) = jobs (store w) @ [j] \<and>
            employer_id j = PInt (emp_id e) \<and>
            field ''job_id'' (body_of (create_job body w)) = Some (Val (PInt (job_id j)))"
      by auto
  }
  {
    fix data2 :: json and w2 :: world
    assume "p \<noteq> PNone \<and> status_of (create_job body w) = 200"
    then have nn: "p \<noteq> PNone" and ok: "status_of (create_job body w) = 200" by simp_all
    assume "py_get data2 ''phone'' (Scalar (PStr ''+260570528201'')) = Inr ph \<and>
            store w2 = store (snd (create_job body w))"
    then have ph2: "py_get data2 ''phone'' (Scalar (PStr ''+260570528201'')) = Inr ph"
      and st: "store w2 = store (snd (create_job body w))" by simp_all
    have "\<exists>e \<in> set (employers (store (snd (create_job body w)))). sql_eq (phone_number e) p"
    proof (cases "select_employer p (store w)")
      case Nil
      with create_job_success [OF ok [unfolded body] ph p] body nn show ?thesis
        by (auto simp: sql_eq_def)
    next
      case (Cons row rest)
      then have "\<exists>e \<in> set (employers (store w)). sql_eq (phone_number e) p"
        using select_employer_empty [of p "store w"] by simp
      with create_job_existing_employer [OF ph p] body show ?thesis by simp
    qed
    with st have "\<exists>e \<in> set (employers (store w2)). sql_eq (phone_number e) p" by simp
    from create_job_existing_employer [OF ph2 p this] st
    show "length (employers (store (snd (create_job (Inr data2) w2)))) =
              length (employers (store (snd (create_job body w))))"
      by simp
  }
qed

lemma new_phone_eval:
  "py_get body_new_phone ''phone'' (Scalar (PStr ''+260570528201'')) = Inr (Scalar (PStr ''+260999''))"
  "adapt (Scalar (PStr ''+260999'')) = Inr (PStr ''+260999'')"
  "employers (store world0) = []"
  "PStr ''+260999'' \<noteq> PNone"
  by (simp_all add: body_new_phone_def py_get_def world0_def db0_def)

lemma new_phone_created: "status_of (create_job (Inr body_new_phone) world0) = 200"
  by code_simp

lemma known_phone_eval:
  "py_get body_known_phone ''phone'' (Scalar (PStr ''+260570528201'')) = Inr (Scalar (PStr ''+260111''))"
  "adapt (Scalar (PStr ''+260111'')) = Inr (PStr ''+260111'')"
  "\<exists>e \<in> set (employers (store world1)). sql_eq (phone_number e) (PStr ''+260111'')"
  "length (employers (store world1)) = 1"
  by (simp_all add: body_known_phone_def py_get_def world1_def world0_def db1_def sql_eq_def)

theorem create_job_reuses_employer_witness:
  "status_of (create_job (Inr body_new_phone) world0) = 200 \<and>
   length (employers (store world0)) = 0 \<and>
   length (employers (store (snd (create_job (Inr body_new_phone) world0)))) = 1 \<and>
   length (employers (store (snd (create_job (Inr body_new_phone)
      (snd (create_job (Inr body_new_phone) world0)))))) = 1 \<and>
   length (employers (store world1)) = 1 \<and>
   length (employers (store (snd (create_job (Inr body_known_phone) world1)))) = 1"
proof -
  let ?w' = "snd (create_job (Inr body_new_phone) world0)"
  note thm0 = create_job_reuses_employer [of "Inr body_new_phone" world0]
  from thm0 new_phone_eval new_phone_created
  have "\<exists>e j. employers (store ?w') = employers (store world0) @ [e] \<and>
      phone_number e = PStr ''+260999'' \<and>
      jobs (store ?w') = jobs (store world0) @ [j] \<and>
      employer_id j = PInt (emp_id e) \<and>
      field ''job_id'' (body_of (create_job (Inr body_new_phone) world0)) =
        Some (Val (PInt (job_id j)))"
    by simp
  then have first: "length (employers (store ?w')) = 1"
    using new_phone_eval(3) by auto
  from thm0 new_phone_eval new_phone_created
  have "\<forall>data2 w2.
      py_get data2 ''phone'' (Scalar (PStr ''+260570528201'')) = Inr (Scalar (PStr ''+260999'')) \<and>
      store w2 = store ?w' \<longrightarrow>
      length (employers (store (snd (create_job (Inr data2) w2)))) =
        length (employers (store ?w'))"
    by simp
  with new_phone_eval(1) first
  have second: "length (employers (store (snd (create_job (Inr body_new_phone) ?w')))) = 1"
    by simp
  from create_job_reuses_employer [of "Inr body_known_phone" world1] known_phone_eval
  have "employers (store (snd (create_job (Inr body_known_phone) world1))) =
      employers (store world1)"
    by simp
  with known_phone_eval(4)
  have third: "length (employers (store (snd (create_job (Inr body_known_phone) world1)))) = 1"
    by simp
  from new_phone_created new_phone_eval(3) first second known_phone_eval(4) third
  show ?thesis by simp
qed

text \<open>
  Claim C1 as stated fails for the body \<open>{"title": "T", "phone": null}\<close>: the lookup
  \<open>phone_number = NULL\<close> matches no row, so each of two calls inserts an employer
  row, and the count goes from 1 to 2.
\<close>

theorem create_job_null_phone_counterexample:
  "map phone_number (employers (store (snd (create_job (Inr body_null_phone) world0)))) = [PNone] \<and>
   map phone_number (employers (store (snd (create_job (Inr body_null_phone)
      (snd (create_job (Inr body_null_phone) world0)))))) = [PNone, PNone]"
  by code_simp

section \<open>What the job listing shows\<close>

lemma job_dict_row:
  "job_dict (job_row now (j, c)) =
     Inr (Dict [(''id'', Val (PInt (job_id j))),
                (''title'', Val (title j)),
                (''description'', py_or (description j) ''No description available''),
                (''location'', py_or (location j) ''Not specified''),
                (''salary'', if truthy (payment_amount j)
                             then str (''K'' @ py_str (payment_amount j) @ ''/'' @
                                       py_str (payment_type j))
                             else str ''Negotiable''),
                (''type'', py_or (payment_type j) ''Not specified''),
                (''category'', str ''general''),
                (''company'', py_or c ''Company not specified''),
                (''posted'', py_or (posted now (job_created_at j)) ''Recently'')])"
  by (simp add: job_dict_Inr job_row_def)

lemma map_Inr_fields:
  assumes "map Inr js = map F xs" and "\<And>x. x \<in> set xs \<Longrightarrow> \<exists>d. F x = Inr d \<and> g d = h x"
  shows "map g js = map h xs"
  using assms
proof (induction xs arbitrary: js)
  case Nil
  then show ?case by simp
next
  case (Cons x xs)
  from Cons.prems(1) obtain d ds where js: "js = d # ds" and d: "Inr d = F x"
    and ds: "map Inr ds = map F xs"
    by (cases js) auto
  from Cons.prems(2) [of x] d have "g d = h x" by auto
  moreover have "map g ds = map h xs"
    by (rule Cons.IH [OF ds]) (simp add: Cons.prems(2))
  ultimately show ?case using js by simp
qed

lemma list_all2_map_eq:
  "list_all2 (\<lambda>x y. f x = Inr y) xs ys \<Longrightarrow> map Inr ys = map f xs"
  by (induction rule: list_all2_induct) auto

lemma get_jobs_listing:
  assumes "reachable w" and "fst (get_jobs_try w) = Inr r"
  shows "snd r = 200 \<and>
    map Inr (items (fst r)) =
      map (\<lambda>jc. job_dict (job_row (clock w) jc)) (listed_jobs (store w))"
proof -
  from get_jobs_try_live [OF assms] obtain js where
    js: "jobs_loop (select_jobs (clock w) (store w)) [] = Inr js" and r: "r = (List js, 200)"
    by blast
  from js have "list_all2 (\<lambda>row d. job_dict row = Inr d) (select_jobs (clock w) (store w)) js"
    by (simp add: jobs_loop_Inr)
  from list_all2_map_eq [OF this] r show ?thesis
    by (simp add: select_jobs_def comp_def)
qed

lemma get_jobs_salaries:
  assumes "reachable w" and "fst (get_jobs_try w) = Inr r"
  shows "map (field ''salary'') (items (fst r)) =
      map (\<lambda>(j, c). Some (if truthy (payment_amount j)
                           then str (''K'' @ py_str (payment_amount j) @ ''/'' @
                                     py_str (payment_type j))
                           else str ''Negotiable''))
        (listed_jobs (store w))"
proof (rule map_Inr_fields)
  show "map Inr (items (fst r)) =
      map (\<lambda>jc. job_dict (job_row (clock w) jc)) (listed_jobs (store w))"
    using get_jobs_listing [OF assms] by simp
next
  fix x assume "x \<in> set (listed_jobs (store w))"
  show "\<exists>d. job_dict (job_row (clock w) x) = Inr d \<and>
         field ''salary'' d =
           (case x of (j, c) \<Rightarrow>
              Some (if truthy (payment_amount j)
                    then str (''K'' @ py_str (payment_amount j) @ ''/'' @ py_str (payment_type j))
                    else str ''Negotiable''))"
    by (cases x) (simp add: job_dict_row)
qed




lemma create_job_success_job:
  assumes ok: "status_of (create_job (Inr data) w) = 200"
  shows "\<exists>j sa ty.
      jobs (store (snd (create_job (Inr data) w))) = jobs (store w) @ [j] \<and>
      job_status j = PStr ''active'' \<and> job_created_at j = clock w \<and>
      py_get data ''salary'' (Scalar (PInt 0)) = Inr sa \<and> adapt sa = Inr (payment_amount j) \<and>
      py_get data ''type'' (Scalar (PStr ''daily'')) = Inr ty \<and> adapt ty = Inr (payment_type j)"
proof -
  from create_job_200 [OF ok] obtain b where
    run: "create_job_try (Inr data) w = (Inr (b, 200), snd (create_job (Inr data) w))" by blast
  from create_job_try_200 [OF run] obtain eid w1 where
    "get_or_create_employer data (after_connect w) = (Inr eid, w1)" by auto
  from get_or_create_employer_phone [OF this] obtain ph p where
    "py_get data ''phone'' (Scalar (PStr ''+260570528201'')) = Inr ph" "adapt ph = Inr p"
    by blast
  from create_job_success [OF ok this] show ?thesis by blast
qed







section \<open>From creation to listing\<close>

lemma map_eq_length: "map g js = map h xs \<Longrightarrow> length js = length xs"
  by (metis length_map)

lemma nth_listing_field:
  assumes "map g js = map h xs" and "i < length xs"
  shows "g (js ! i) = h (xs ! i)"
proof -
  from assms(1) have len: "length js = length xs" by (rule map_eq_length)
  from len assms(2) have "g (js ! i) = map g js ! i" by simp
  also from assms(1) have "\<dots> = map h xs ! i" by simp
  also from assms(2) have "\<dots> = h (xs ! i)" by simp
  finally show ?thesis .
qed

lemma k120_daily: "''K'' @ py_str (PInt 120) @ ''/'' @ py_str (PStr ''daily'') = ''K120/daily''"
  by code_simp

text \<open>
  Claim C4, amended. A job created with \<open>salary = 120\<close> and \<open>type = "daily"\<close> is
  stored with payment amount 120 and payment type "daily", and the listing renders
  such a job with salary "K120/daily". The rendering "K<amount>/<payment_type>"
  applies whenever the amount is truthy (neither \<open>null\<close> nor zero); otherwise the
  salary is "Negotiable".
\<close>

theorem salary_round_trip:
  "(py_get data ''salary'' (Scalar (PInt 0)) = Inr (Scalar (PInt 120)) \<and>
    py_get data ''type'' (Scalar (PStr ''daily'')) = Inr (Scalar (PStr ''daily'')) \<and>
    status_of (create_job (Inr data) w) = 200 \<longrightarrow>
      (\<exists>j. jobs (store (snd (create_job (Inr data) w))) = jobs (store w) @ [j] \<and>
         payment_amount j = PInt 120 \<and> payment_type j = PStr ''daily'' \<and>
         job_status j = PStr ''active'')) \<and>
   (reachable v \<and> fst (get_jobs_try v) = Inr r \<longrightarrow>
      map (field ''salary'') (items (fst r)) =
        map (\<lambda>(j, c). Some (if truthy (payment_amount j)
                             then str (''K'' @ py_str (payment_amount j) @ ''/'' @
                                       py_str (payment_type j))
                             else str ''Negotiable''))
          (listed_jobs (store v)) \<and>
      (\<forall>i < length (listed_jobs (store v)).
         payment_amount (fst (listed_jobs (store v) ! i)) = PInt 120 \<and>
         payment_type (fst (listed_jobs (store v) ! i)) = PStr ''daily'' \<longrightarrow>
         field ''salary'' (items (fst r) ! i) = Some (str ''K120/daily'')))"
proof (intro conjI impI allI)
  assume h: "py_get data ''salary'' (Scalar (PInt 0)) = Inr (Scalar (PInt 120)) \<and>
    py_get data ''type'' (Scalar (PStr ''daily'')) = Inr (Scalar (PStr ''daily'')) \<and>
    status_of (create_job (Inr data) w) = 200"
  then have ok: "status_of (create_job (Inr data) w) = 200" by simp
  from create_job_success_job [OF ok] h
  show "\<exists>j. jobs (store (snd (create_job (Inr data) w))) = jobs (store w) @ [j] \<and>
         payment_amount j = PInt 120 \<and> payment_type j = PStr ''daily'' \<and>
         job_status j = PStr ''active''"
    by auto
next
  assume live: "reachable v \<and> fst (get_jobs_try v) = Inr r"
  then show sal: "map (field ''salary'') (items (fst r)) =
        map (\<lambda>(j, c). Some (if truthy (payment_amount j)
                             then str (''K'' @ py_str (payment_amount j) @ ''/'' @
                                       py_str (payment_type j))
                             else str ''Negotiable''))
          (listed_jobs (store v))"
    using get_jobs_salaries [of v r] by simp
  fix i
  assume i: "i < length (listed_jobs (store v))"
    and j: "payment_amount (fst (listed_jobs (store v) ! i)) = PInt 120 \<and>
         payment_type (fst (listed_jobs (store v) ! i)) = PStr ''daily''"
  from nth_listing_field [OF sal i] j k120_daily
  show "field ''salary'' (items (fst r) ! i) = Some (str ''K120/daily'')"
    by (simp add: case_prod_unfold)
qed

lemma daily_120_eval:
  "py_get body_daily_120 ''salary'' (Scalar (PInt 0)) = Inr (Scalar (PInt 120))"
  "py_get body_daily_120 ''type'' (Scalar (PStr ''daily'')) = Inr (Scalar (PStr ''daily''))"
  "jobs (store world0) = []"
  by (simp_all add: body_daily_120_def py_get_def world0_def db0_def)

lemma daily_120_run:
  "status_of (create_job (Inr body_daily_120) world0) = 200"
  "reachable (snd (create_job (Inr body_daily_120) world0))"
  "fst (get_jobs_try (snd (create_job (Inr body_daily_120) world0))) =
     Inr (fst (get_jobs (snd (create_job (Inr body_daily_120) world0))))"
  "map (\<lambda>(j, c). Some (if truthy (payment_amount j)
                       then str (''K'' @ py_str (payment_amount j) @ ''/'' @ py_str (payment_type j))
                       else str ''Negotiable''))
     (listed_jobs (store (snd (create_job (Inr body_daily_120) world0)))) =
   [Some (str ''K120/daily'')]"
  by code_simp+

theorem salary_round_trip_witness:
  "status_of (create_job (Inr body_daily_120) world0) = 200 \<and>
   map payment_amount (jobs (store (snd (create_job (Inr body_daily_120) world0)))) = [PInt 120] \<and>
   map payment_type (jobs (store (snd (create_job (Inr body_daily_120) world0)))) =
     [PStr ''daily''] \<and>
   reachable (snd (create_job (Inr body_daily_120) world0)) \<and>
   map (field ''salary'') (items (body_of (get_jobs (snd (create_job (Inr body_daily_120) world0))))) =
     [Some (str ''K120/daily'')]"
proof -
  let ?w = "snd (create_job (Inr body_daily_120) world0)"
  note inst = salary_round_trip [of body_daily_120 world0 "?w" "fst (get_jobs ?w)"]
  from inst daily_120_eval daily_120_run(1)
  have "\<exists>j. jobs (store ?w) = [j] \<and> payment_amount j = PInt 120 \<and>
      payment_type j = PStr ''daily'' \<and> job_status j = PStr ''active''"
    by simp
  then have stored: "map payment_amount (jobs (store ?w)) = [PInt 120]"
    "map payment_type (jobs (store ?w)) = [PStr ''daily'']"
    by auto
  from inst daily_120_run
  have "map (field ''salary'') (items (body_of (get_jobs ?w))) = [Some (str ''K120/daily'')]"
    by (simp add: body_of_def)
  with stored daily_120_run(1,2) show ?thesis by simp
qed

text \<open>
  Claim C4 as stated fails in its rendering rule: a job created with \<open>salary = 0\<close>
  has its amount stored (it is 0, not \<open>null\<close>), and is listed as "Negotiable", not
  as "K0/daily".
\<close>

theorem salary_zero_counterexample:
  "map payment_amount (jobs (store (snd (create_job (Inr body_salary_0) world0)))) = [PInt 0] \<and>
   map (field ''salary'') (items (body_of (get_jobs (snd (create_job (Inr body_salary_0) world0))))) =
     [Some (str ''Negotiable'')]"
  by code_simp

text \<open>
  Claim C10. A job created without a \<open>salary\<close> field is stored with payment amount
  0, and every listed job whose payment amount is 0 is rendered with salary
  "Negotiable": the test on the amount is truthiness, under which 0 counts like
  \<open>null\<close>.
\<close>

theorem zero_amount_negotiable:
  "(py_get data ''salary'' (Scalar (PInt 0)) = Inr (Scalar (PInt 0)) \<and>
    status_of (create_job (Inr data) w) = 200 \<longrightarrow>
      (\<exists>j. jobs (store (snd (create_job (Inr data) w))) = jobs (store w) @ [j] \<and>
         payment_amount j = PInt 0)) \<and>
   (map_of kvs ''salary'' = None \<longrightarrow>
      py_get (Object kvs) ''salary'' (Scalar (PInt 0)) = Inr (Scalar (PInt 0))) \<and>
   (reachable v \<and> fst (get_jobs_try v) = Inr r \<longrightarrow>
      length (items (fst r)) = length (listed_jobs (store v)) \<and>
      (\<forall>i < length (listed_jobs (store v)).
         payment_amount (fst (listed_jobs (store v) ! i)) = PInt 0 \<or>
         payment_amount (fst (listed_jobs (store v) ! i)) = PNone \<longrightarrow>
         field ''salary'' (items (fst r) ! i) = Some (str ''Negotiable''))) \<and>
   truthy (PInt 0) = truthy PNone"
proof (intro conjI impI allI)
  assume h: "py_get data ''salary'' (Scalar (PInt 0)) = Inr (Scalar (PInt 0)) \<and>
    status_of (create_job (Inr data) w) = 200"
  then have ok: "status_of (create_job (Inr data) w) = 200" by simp
  from create_job_success_job [OF ok] h
  show "\<exists>j. jobs (store (snd (create_job (Inr data) w))) = jobs (store w) @ [j] \<and>
         payment_amount j = PInt 0"
    by auto
next
  assume "map_of kvs ''salary'' = None"
  then show "py_get (Object kvs) ''salary'' (Scalar (PInt 0)) = Inr (Scalar (PInt 0))"
    by (simp add: py_get_def)
next
  show "truthy (PInt 0) = truthy PNone" by simp
next
  assume live: "reachable v \<and> fst (get_jobs_try v) = Inr r"
  then have sal: "map (field ''salary'') (items (fst r)) =
        map (\<lambda>(j, c). Some (if truthy (payment_amount j)
                             then str (''K'' @ py_str (payment_amount j) @ ''/'' @
                                       py_str (payment_type j))
                             else str ''Negotiable''))
          (listed_jobs (store v))"
    using get_jobs_salaries [of v r] by simp
  then show "length (items (fst r)) = length (listed_jobs (store v))"
    by (rule map_eq_length)
  fix i
  assume i: "i < length (listed_jobs (store v))"
    and j: "payment_amount (fst (listed_jobs (store v) ! i)) = PInt 0 \<or>
         payment_amount (fst (listed_jobs (store v) ! i)) = PNone"
  from nth_listing_field [OF sal i] j
  show "field ''salary'' (items (fst r) ! i) = Some (str ''Negotiable'')"
    by (auto simp: case_prod_unfold)
qed

lemma no_salary_eval:
  "map_of [(''title'', Scalar (PStr ''T''))] ''salary'' = None"
  "body_no_salary = Object [(''title'', Scalar (PStr ''T''))]"
  "jobs (store world0) = []"
  by (simp_all add: body_no_salary_def world0_def db0_def)

lemma no_salary_run:
  "status_of (create_job (Inr body_no_salary) world0) = 200"
  "reachable (snd (create_job (Inr body_no_salary) world0))"
  "fst (get_jobs_try (snd (create_job (Inr body_no_salary) world0))) =
     Inr (fst (get_jobs (snd (create_job (Inr body_no_salary) world0))))"
  "length (listed_jobs (store (snd (create_job (Inr body_no_salary) world0)))) = 1"
  "map (\<lambda>(j, c). payment_amount j)
     (listed_jobs (store (snd (create_job (Inr body_no_salary) world0)))) = [PInt 0]"
  by code_simp+

theorem zero_amount_negotiable_witness:
  "status_of (create_job (Inr body_no_salary) world0) = 200 \<and>
   map payment_amount (jobs (store (snd (create_job (Inr body_no_salary) world0)))) = [PInt 0] \<and>
   reachable (snd (create_job (Inr body_no_salary) world0)) \<and>
   length (items (body_of (get_jobs (snd (create_job (Inr body_no_salary) world0))))) = 1 \<and>
   field ''salary'' (items (body_of (get_jobs (snd (create_job (Inr body_no_salary) world0)))) ! 0) =
     Some (str ''Negotiable'')"
proof -
  let ?w = "snd (create_job (Inr body_no_salary) world0)"
  note inst = zero_amount_negotiable
    [of body_no_salary world0 "[(''title'', Scalar (PStr ''T''))]" "?w" "fst (get_jobs ?w)"]
  from inst no_salary_eval no_salary_run(1)
  have "\<exists>j. jobs (store ?w) = [j] \<and> payment_amount j = PInt 0"
    by simp
  then have stored: "map payment_amount (jobs (store ?w)) = [PInt 0]"
    by auto
  from inst no_salary_run
  have len: "length (items (body_of (get_jobs ?w))) = 1"
    by (simp add: body_of_def)
  have amt: "payment_amount (fst (listed_jobs (store ?w) ! 0)) = PInt 0"
  proof -
    have "map (\<lambda>(j, c). payment_amount j) (listed_jobs (store ?w)) ! 0 = PInt 0"
      by (simp add: no_salary_run(5))
    then show ?thesis
      using no_salary_run(4) by (simp add: case_prod_unfold)
  qed
  from inst no_salary_run(2,3,4) amt
  have "field ''salary'' (items (body_of (get_jobs ?w)) ! 0) = Some (str ''Negotiable'')"
    by (simp add: body_of_def)
  with stored len no_salary_run(1,2) show ?thesis by simp
qed

section \<open>The payment listing handler\<close>

lemma payment_dict_Inr:
  "payment_dict payment = Inr d \<longleftrightarrow>
     5 \<le> length payment \<and>
     d = Dict [(''description'', Val (payment ! 0)),
               (''amount'', str (''K'' @ py_str (payment ! 1))),
               (''status'', Val (payment ! 2)),
               (''date'', Val (payment ! 3)),
               (''reference'', py_or (payment ! 4) ''N/A'')]"
  by (auto simp: payment_dict_def sbind_def subscript_def)

lemma payment_dict_row:
  "payment_dict (payment_row p) =
     Inr (Dict [(''description'', Val (purpose p)),
                (''amount'', str (''K'' @ py_str (amount p))),
                (''status'', Val (pay_status p)),
                (''date'', str (to_char_YYYY_MM_DD (pay_created_at p))),
                (''reference'', py_or (transaction_id p) ''N/A'')])"
  by (simp add: payment_dict_Inr payment_row_def str_def)

lemma payments_loop_rows:
  "payments_loop (map payment_row ps) acc =
     Inr (acc @ map (\<lambda>p. Dict [(''description'', Val (purpose p)),
                (''amount'', str (''K'' @ py_str (amount p))),
                (''status'', Val (pay_status p)),
                (''date'', str (to_char_YYYY_MM_DD (pay_created_at p))),
                (''reference'', py_or (transaction_id p) ''N/A'')]) ps)"
  by (induction ps arbitrary: acc) (simp_all add: payment_dict_row sbind_def)

lemma get_payments_try_down: "\<not> reachable w \<Longrightarrow> fst (get_payments_try w) = Inr (List [], 200)"
  by (simp add: get_payments_try_def get_db_connection_def io_defs)

lemma get_payments_try_live:
  assumes "reachable w" and "get_payments_try w = (Inr r, w')"
  shows "r = (List (map (\<lambda>p. Dict [(''description'', Val (purpose p)),
                (''amount'', str (''K'' @ py_str (amount p))),
                (''status'', Val (pay_status p)),
                (''date'', str (to_char_YYYY_MM_DD (pay_created_at p))),
                (''reference'', py_or (transaction_id p) ''N/A'')])
            (newest_payments (store w))), 200)"
  using assms
  by (auto simp: get_payments_try_def run_simps run_sql_def select_payments_def
        payments_loop_rows
      dest!: io_bind_Inr)

lemma fst_get_payments:
  "fst (get_payments w) = (case fst (get_payments_try w) of Inr r \<Rightarrow> r | Inl e \<Rightarrow> (List [], 200))"
  by (cases "get_payments_try w") (simp add: get_payments_def split: sum.splits)

lemma get_payments_status: "status_of (get_payments w) = 200"
proof (cases "get_payments_try w")
  case (Pair x w')
  show ?thesis
  proof (cases x)
    case (Inl e)
    with Pair show ?thesis by (simp add: fst_get_payments status_of_def)
  next
    case (Inr r)
    show ?thesis
    proof (cases "reachable w")
      case False
      from get_payments_try_down [OF this] Pair Inr show ?thesis
        by (simp add: fst_get_payments status_of_def)
    next
      case True
      from get_payments_try_live [OF True] Pair Inr show ?thesis
        by (simp add: fst_get_payments status_of_def)
    qed
  qed
qed

subsection \<open>The five newest, newest first\<close>

lemma newest_first:
  "sorted_wrt (\<lambda>p q. pay_created_at q \<le> pay_created_at p)
     (sort_key (\<lambda>p. - pay_created_at p) ps)"
proof -
  have "sorted (map (\<lambda>p. - pay_created_at p) (sort_key (\<lambda>p. - pay_created_at p) ps))"
    by (rule sorted_sort_key)
  then show ?thesis by (simp add: sorted_map)
qed

lemma newest_payments_sorted:
  "sorted_wrt (\<lambda>p q. pay_created_at q \<le> pay_created_at p) (newest_payments db)"
  unfolding newest_payments_def by (rule sorted_wrt_take [OF newest_first])

lemma sorted_wrt_take_drop:
  assumes "sorted_wrt R ys" and "a \<in> set (take n ys)" and "b \<in> set (drop n ys)"
  shows "R a b"
proof -
  from assms(1) have "sorted_wrt R (take n ys @ drop n ys)" by simp
  then have "\<forall>x \<in> set (take n ys). \<forall>y \<in> set (drop n ys). R x y"
    unfolding sorted_wrt_append by blast
  with assms(2,3) show ?thesis by blast
qed

lemma set_take_or_drop:
  assumes "q \<in> set ys" and "q \<notin> set (take n ys)"
  shows "q \<in> set (drop n ys)"
proof -
  have "set ys = set (take n ys) \<union> set (drop n ys)"
    by (metis append_take_drop_id set_append)
  with assms show ?thesis by blast
qed

lemma newest_payments_top:
  assumes "p \<in> set (newest_payments db)" and "q \<in> set (payments db)"
    and "q \<notin> set (newest_payments db)"
  shows "pay_created_at q \<le> pay_created_at p"
proof -
  let ?ys = "sort_key (\<lambda>p. - pay_created_at p) (payments db)"
  from assms(2) have "q \<in> set ?ys" by simp
  moreover from assms(3) have "q \<notin> set (take 5 ?ys)" by (simp add: newest_payments_def)
  ultimately have q: "q \<in> set (drop 5 ?ys)" by (rule set_take_or_drop)
  from assms(1) have p: "p \<in> set (take 5 ?ys)" by (simp add: newest_payments_def)
  from newest_first p q show ?thesis by (rule sorted_wrt_take_drop)
qed

lemma newest_payments_subset: "set (newest_payments db) \<subseteq> set (payments db)"
proof -
  have "set (take 5 (sort_key (\<lambda>p. - pay_created_at p) (payments db))) \<subseteq>
      set (sort_key (\<lambda>p. - pay_created_at p) (payments db))"
    by (rule set_take_subset)
  then show ?thesis by (simp add: newest_payments_def)
qed

text \<open>
  Claim C6. The payment listing always answers 200. Without a connection, and
  whenever a step raises, the body is the empty list. Otherwise it has one object for
  each of the five newest payments at most, newest first, with the amount rendered
  as "K<amount>" and a missing (\<open>null\<close> or empty) transaction reference replaced
  by "N/A".
\<close>

theorem get_payments_degrades:
  "status_of (get_payments w) = 200 \<and>
   (\<not> reachable w \<longrightarrow> body_of (get_payments w) = List []) \<and>
   (\<forall>e. fst (get_payments_try w) = Inl e \<longrightarrow> body_of (get_payments w) = List []) \<and>
   (reachable w \<and> fst (get_payments_try w) = Inr r \<longrightarrow>
      body_of (get_payments w) =
        List (map (\<lambda>p. Dict [(''description'', Val (purpose p)),
                (''amount'', str (''K'' @ py_str (amount p))),
                (''status'', Val (pay_status p)),
                (''date'', str (to_char_YYYY_MM_DD (pay_created_at p))),
                (''reference'', if truthy (transaction_id p) then Val (transaction_id p)
                                else str ''N/A'')])
          (newest_payments (store w)))) \<and>
   length (newest_payments (store w)) \<le> 5 \<and>
   sorted_wrt (\<lambda>p q. pay_created_at q \<le> pay_created_at p) (newest_payments (store w)) \<and>
   set (newest_payments (store w)) \<subseteq> set (payments (store w)) \<and>
   (\<forall>p \<in> set (newest_payments (store w)). \<forall>q \<in> set (payments (store w)).
      q \<notin> set (newest_payments (store w)) \<longrightarrow> pay_created_at q \<le> pay_created_at p)"
proof (intro conjI impI allI ballI)
  show "status_of (get_payments w) = 200" by (rule get_payments_status)
next
  assume "\<not> reachable w"
  from get_payments_try_down [OF this] show "body_of (get_payments w) = List []"
    by (simp add: body_of_def fst_get_payments)
next
  fix e assume "fst (get_payments_try w) = Inl e"
  then show "body_of (get_payments w) = List []"
    by (simp add: body_of_def fst_get_payments)
next
  assume live: "reachable w \<and> fst (get_payments_try w) = Inr r"
  then obtain w' where run: "get_payments_try w = (Inr r, w')"
    by (cases "get_payments_try w") simp
  from live get_payments_try_live [OF _ run]
  show "body_of (get_payments w) =
        List (map (\<lambda>p. Dict [(''description'', Val (purpose p)),
                (''amount'', str (''K'' @ py_str (amount p))),
                (''status'', Val (pay_status p)),
                (''date'', str (to_char_YYYY_MM_DD (pay_created_at p))),
                (''reference'', if truthy (transaction_id p) then Val (transaction_id p)
                                else str ''N/A'')])
          (newest_payments (store w)))"
    by (simp add: body_of_def fst_get_payments py_or_def str_def)
next
  show "length (newest_payments (store w)) \<le> 5" by (simp add: newest_payments_def)
next
  show "sorted_wrt (\<lambda>p q. pay_created_at q \<le> pay_created_at p) (newest_payments (store w))"
    by (rule newest_payments_sorted)
next
  show "set (newest_payments (store w)) \<subseteq> set (payments (store w))"
    by (rule newest_payments_subset)
next
  fix p q
  assume "p \<in> set (newest_payments (store w))" "q \<in> set (payments (store w))"
    "q \<notin> set (newest_payments (store w))"
  then show "pay_created_at q \<le> pay_created_at p" by (rule newest_payments_top)
qed

lemma newest_world1:
  "map transaction_id (newest_payments (store world1)) =
     [PStr ''TX6'', PStr [], PStr ''TX3'', PNone, PStr ''TX1'']"
  "map amount (newest_payments (store world1)) = [PInt 50, PInt 50, PInt 30, PInt 20, PInt 50]"
  by (simp_all add: newest_payments_def sort_key_def world1_def world0_def db1_def)

lemma str_int_samples: "str_int 50 = ''50''" "str_int 30 = ''30''" "str_int 20 = ''20''"
  by code_simp+

lemma payments_samples:
  "fst (get_payments_try world1) = Inr (fst (get_payments world1))"
  "map (\<lambda>p. Some (str (''K'' @ py_str (amount p)))) (newest_payments (store world1)) =
     [Some (str ''K50''), Some (str ''K50''), Some (str ''K30''), Some (str ''K20''),
      Some (str ''K50'')]"
  "map (\<lambda>p. Some (if truthy (transaction_id p) then Val (transaction_id p) else str ''N/A''))
     (newest_payments (store world1)) =
     [Some (str ''TX6''), Some (str ''N/A''), Some (str ''TX3''), Some (str ''N/A''),
      Some (str ''TX1'')]"
  "length (payments (store world1)) = 6"
  "fst (get_payments_try world_faulty) =
     Inl (Exn ''OperationalError'' ''server closed the connection unexpectedly'')"
proof -
  have "\<exists>r. fst (get_payments_try world1) = Inr r"
    by (simp add: get_payments_try_def eval_defs select_payments_def payments_loop_rows
        world1_def world0_def)
  then show "fst (get_payments_try world1) = Inr (fst (get_payments world1))"
    by (auto simp: fst_get_payments)
  have "map (\<lambda>p. Some (str (''K'' @ py_str (amount p)))) (newest_payments (store world1)) =
      map (\<lambda>a. Some (str (''K'' @ py_str a))) (map amount (newest_payments (store world1)))"
    by (simp add: comp_def)
  then show "map (\<lambda>p. Some (str (''K'' @ py_str (amount p)))) (newest_payments (store world1)) =
     [Some (str ''K50''), Some (str ''K50''), Some (str ''K30''), Some (str ''K20''),
      Some (str ''K50'')]"
    by (simp add: newest_world1 str_int_samples)
  have "map (\<lambda>p. Some (if truthy (transaction_id p) then Val (transaction_id p) else str ''N/A''))
      (newest_payments (store world1)) =
      map (\<lambda>t. Some (if truthy t then Val t else str ''N/A''))
        (map transaction_id (newest_payments (store world1)))"
    by (simp add: comp_def)
  then show "map (\<lambda>p. Some (if truthy (transaction_id p) then Val (transaction_id p)
        else str ''N/A''))
     (newest_payments (store world1)) =
     [Some (str ''TX6''), Some (str ''N/A''), Some (str ''TX3''), Some (str ''N/A''),
      Some (str ''TX1'')]"
    by (simp add: newest_world1 str_def)
  show "length (payments (store world1)) = 6"
    by (simp add: world1_def world0_def db1_def)
  show "fst (get_payments_try world_faulty) =
     Inl (Exn ''OperationalError'' ''server closed the connection unexpectedly'')"
    by (simp add: get_payments_try_def eval_defs world_faulty_def world0_def)
qed

theorem get_payments_degrades_witness:
  "\<not> reachable world_down \<and> body_of (get_payments world_down) = List [] \<and>
   fst (get_payments_try world_faulty) =
     Inl (Exn ''OperationalError'' ''server closed the connection unexpectedly'') \<and>
   body_of (get_payments world_faulty) = List [] \<and>
   reachable world1 \<and> length (payments (store world1)) = 6 \<and>
   map (field ''amount'') (items (body_of (get_payments world1))) =
     [Some (str ''K50''), Some (str ''K50''), Some (str ''K30''), Some (str ''K20''),
      Some (str ''K50'')] \<and>
   map (field ''reference'') (items (body_of (get_payments world1))) =
     [Some (str ''TX6''), Some (str ''N/A''), Some (str ''TX3''), Some (str ''N/A''),
      Some (str ''TX1'')]"
proof -
  from get_payments_degrades [of world_down] world_down_unreachable
  have down: "body_of (get_payments world_down) = List []" by blast
  from get_payments_degrades [of world_faulty] payments_samples(5)
  have faulty: "body_of (get_payments world_faulty) = List []" by blast
  from get_payments_degrades [of world1 "fst (get_payments world1)"] world1_reachable
    payments_samples(1)
  have body: "body_of (get_payments world1) =
        List (map (\<lambda>p. Dict [(''description'', Val (purpose p)),
                (''amount'', str (''K'' @ py_str (amount p))),
                (''status'', Val (pay_status p)),
                (''date'', str (to_char_YYYY_MM_DD (pay_created_at p))),
                (''reference'', if truthy (transaction_id p) then Val (transaction_id p)
                                else str ''N/A'')])
          (newest_payments (store world1)))"
    by blast
  have amounts: "map (field ''amount'') (items (body_of (get_payments world1))) =
     [Some (str ''K50''), Some (str ''K50''), Some (str ''K30''), Some (str ''K20''),
      Some (str ''K50'')]"
    unfolding body using payments_samples(2) by (simp add: comp_def)
  have refs: "map (field ''reference'') (items (body_of (get_payments world1))) =
     [Some (str ''TX6''), Some (str ''N/A''), Some (str ''TX3''), Some (str ''N/A''),
      Some (str ''TX1'')]"
    unfolding body using payments_samples(3) by (simp add: comp_def)
  from world_down_unreachable down payments_samples(5) faulty world1_reachable
    payments_samples(4) amounts refs
  show ?thesis by blast
qed

end
